theory Spec2Isabelle
  imports Main "HOL-Library.AList" "HOL-Library.Sublist"
begin

section \<open>Data model (src/lib/video-store.ts)\<close>

text \<open>
  The TypeScript type \<open>VideoDetails\<close>. Optional fields (\<open>f?: T\<close>) are options.
  \<open>createdAt\<close> is a Firestore timestamp, here milliseconds since the epoch. The field
  \<open>id\<close> is named \<open>id_doc\<close> because \<open>id\<close> is the identity function of HOL.
\<close>

datatype video_length = Short | Long

record VideoDetails =
  id_doc :: string
  uid :: string
  title :: string
  script :: string
  videoLength :: "video_length option"
  thumbnailUrl :: "string option"
  playlist :: "string option"
  status :: string
  optimizedTitle :: string
  optimizedDescription :: "string option"
  optimizedTags :: "string list option"
  optimizedCategory :: "string option"
  suggestedUploadTime :: "string option"
  createdAt :: int
  videoUrl :: "string option"
  audioUrl :: "string option"
  operationName :: "string option"

text \<open>
  JavaScript truthiness of an optional string: \<open>undefined\<close> and the empty string are
  falsy (\<open>if (x)\<close>, \<open>!x\<close>, \<open>x && y\<close>, \<open>x || d\<close>).
\<close>

fun truthy :: "string option \<Rightarrow> bool" where
  "truthy None = False"
| "truthy (Some s) = (s \<noteq> [])"

text \<open>
  The genkit \<open>Operation\<close> descriptor, as far as the code reads it: \<open>done\<close>,
  \<open>error\<close> (its message) and \<open>output?.message?.content\<close>, a list of parts that may
  carry a \<open>media\<close> object with a \<open>url\<close>.
\<close>

record Media =
  url :: "string option"

record Part =
  media :: "Media option"

record Message =
  content :: "Part list"

record Output =
  message :: "Message option"

record Operation =
  name_op :: string
  done_op :: bool
  error_op :: "string option"
  output_op :: "Output option"

record OperationInfo =
  operation :: Operation
  storedAt :: int

text \<open>
  \<open>Partial<VideoDetails>\<close>, the argument of \<open>updateVideoMetadata\<close>: the fields that the
  callers write. A field that is \<open>None\<close> is absent from the partial object and is left
  as it is by the merge.
\<close>

record Metadata =
  m_status :: "string option"
  m_videoUrl :: "string option"
  m_audioUrl :: "string option"
  m_operationName :: "string option"
  m_thumbnailUrl :: "string option"

definition noMetadata :: Metadata where
  "noMetadata = \<lparr>m_status = None, m_videoUrl = None, m_audioUrl = None,
     m_operationName = None, m_thumbnailUrl = None\<rparr>"

section \<open>Collaborators, state and effects\<close>

datatype error =
  GenerationError | OptimizationError | RenderError | StoreError
  | RemoteError | StorageError | SpeechError | StrategyError

record ScriptInput =
  si_length :: video_length
  si_topic :: "string option"
  si_videoTitle :: "string option"
  si_inspirationVideoUrl :: "string option"

record ScriptResult =
  sr_title :: string
  sr_script :: string
  sr_topic :: string

record OptimizeInput =
  oi_videoTitle :: string
  oi_script :: string
  oi_videoCategory :: string
  oi_videoDescription :: string
  oi_videoTags :: string

record OptimizationResult =
  or_optimizedTitle :: string
  or_optimizedDescription :: "string option"
  or_optimizedTags :: "string list option"
  or_optimizedCategory :: "string option"
  or_suggestedUploadTime :: "string option"

record SeriesSuggestion =
  ss_topic :: string
  ss_playlist :: string
  ss_isNewSeries :: bool

text \<open>
  The three queries the code issues on the collection \<open>videos\<close>:
  \<open>where("uid", "==", uid)\<close> alone, with a closed range on \<open>createdAt\<close>, and with
  \<open>where("playlist", "==", playlist)\<close>.
\<close>

datatype query =
    ByOwner string
  | ByOwnerCreatedBetween string int int
  | ByOwnerPlaylist string string

text \<open>
  What the outside world does during one call: the clock, the identifier the store
  assigns to a new document, and the answer of every awaited collaborator. A call that
  rejects is \<open>Inl e\<close> (or \<open>Some e\<close> when it returns nothing).
\<close>

record env =
  date_now :: int
  tzOffset :: int
  serverTimestamp :: int
  newDocId :: string
  getDoc_error :: "string \<Rightarrow> error option"
  getDocs_error :: "query \<Rightarrow> error option"
  setDoc_error :: "string \<Rightarrow> error option"
  setDoc_merge_error :: "string \<Rightarrow> Metadata \<Rightarrow> error option"
  checkOperation :: "Operation \<Rightarrow> error + Operation"
  uploadString :: "string \<Rightarrow> string \<Rightarrow> error option"
  getDownloadURL :: "string \<Rightarrow> error + string"
  generateSpeechAudio :: "string \<Rightarrow> error + string"
  generateVideoScript :: "ScriptInput \<Rightarrow> error + ScriptResult"
  optimizeYoutubeUpload :: "OptimizeInput \<Rightarrow> error + OptimizationResult"
  submitRender :: "string \<Rightarrow> string \<Rightarrow> error + Operation"
  suggestSeriesStrategy :: "string list \<Rightarrow> error + SeriesSuggestion"

record Job =
  job_uid :: string
  job_length :: video_length
  job_playlist :: "string option"
  job_topic :: "string option"
  job_title :: "string option"
  job_inspirationVideoUrl :: "string option"
  job_script :: "string option"

text \<open>
  The calls a run makes, in order: every write to the store, every request to a remote
  collaborator, and every entry into \<open>createAndProcessVideo\<close>.
\<close>

datatype event =
    E_setDoc string
  | E_checkOperation string
  | E_uploadString string
  | E_generateSpeechAudio
  | E_generateThumbnail string
  | E_generateVideoScript ScriptInput
  | E_optimizeYoutubeUpload
  | E_createAIVideo string
  | E_suggestSeriesStrategy "string list"
  | E_createAndProcessVideo Job

text \<open>
  The document store (collection \<open>videos\<close>, one entry per document, in the order a
  query lists them), the in-memory table \<open>videoOperations\<close>, and the calls made so far.
\<close>

record state =
  videos :: "(string \<times> VideoDetails) list"
  videoOperations :: "string \<rightharpoonup> OperationInfo"
  calls :: "event list"

definition initial_state :: state where
  "initial_state = \<lparr>videos = [], videoOperations = Map.empty, calls = []\<rparr>"

text \<open>
  An asynchronous function: it runs on a state and either returns a value or throws,
  and in both cases leaves a state behind.
\<close>

type_synonym 'a io = "state \<Rightarrow> (error + 'a) \<times> state"

definition io_return :: "'a \<Rightarrow> 'a io" where
  "io_return x s = (Inr x, s)"

definition io_bind :: "'a io \<Rightarrow> ('a \<Rightarrow> 'b io) \<Rightarrow> 'b io" where
  "io_bind m f s = (case m s of (Inl e, s') \<Rightarrow> (Inl e, s') | (Inr x, s') \<Rightarrow> f x s')"

definition io_catch :: "'a io \<Rightarrow> (error \<Rightarrow> 'a io) \<Rightarrow> 'a io" where
  "io_catch m h s = (case m s of (Inl e, s') \<Rightarrow> h e s' | (Inr x, s') \<Rightarrow> (Inr x, s'))"

definition io_call :: "event \<Rightarrow> error + 'a \<Rightarrow> 'a io" where
  "io_call ev r s = (r, s\<lparr>calls := calls s @ [ev]\<rparr>)"

definition io_unit :: "error option \<Rightarrow> error + unit" where
  "io_unit r = (case r of Some e \<Rightarrow> Inl e | None \<Rightarrow> Inr ())"

section \<open>Firestore video management\<close>

text \<open>
  \<open>setDoc(ref, metadata, {merge: true})\<close> overwrites the fields present in
  \<open>metadata\<close> and keeps the others. On a document that does not exist it creates one
  holding only the merged fields; \<open>emptyDocument\<close> stands for the document with no
  field, its absent strings empty (falsy, as \<open>undefined\<close> is).
\<close>

definition mergeMetadata :: "VideoDetails \<Rightarrow> Metadata \<Rightarrow> VideoDetails" where
  "mergeMetadata v m = v\<lparr>
     status := (case m_status m of Some s \<Rightarrow> s | None \<Rightarrow> status v),
     videoUrl := (case m_videoUrl m of Some u \<Rightarrow> Some u | None \<Rightarrow> videoUrl v),
     audioUrl := (case m_audioUrl m of Some u \<Rightarrow> Some u | None \<Rightarrow> audioUrl v),
     operationName := (case m_operationName m of Some n \<Rightarrow> Some n | None \<Rightarrow> operationName v),
     thumbnailUrl := (case m_thumbnailUrl m of Some u \<Rightarrow> Some u | None \<Rightarrow> thumbnailUrl v)\<rparr>"

definition emptyDocument :: "string \<Rightarrow> VideoDetails" where
  "emptyDocument i = \<lparr>id_doc = i, uid = [], title = [], script = [], videoLength = None,
     thumbnailUrl = None, playlist = None, status = [], optimizedTitle = [],
     optimizedDescription = None, optimizedTags = None, optimizedCategory = None,
     suggestedUploadTime = None, createdAt = 0, videoUrl = None, audioUrl = None,
     operationName = None\<rparr>"

definition setDoc_merge :: "string \<Rightarrow> Metadata \<Rightarrow> (string \<times> VideoDetails) list
    \<Rightarrow> (string \<times> VideoDetails) list" where
  "setDoc_merge videoId metadata vs =
     (case map_of vs videoId of
        Some v \<Rightarrow> AList.update videoId (mergeMetadata v metadata) vs
      | None \<Rightarrow> AList.update videoId (mergeMetadata (emptyDocument videoId) metadata) vs)"

text \<open>\<open>addNewVideo\<close>, lines 40-53: the new document gets the store's identifier, the
  owner, status \<open>Processing\<close> and the server's timestamp.\<close>

definition addNewVideo :: "env \<Rightarrow> string \<Rightarrow> VideoDetails \<Rightarrow> string io" where
  "addNewVideo e u details s =
     (let videoData = details\<lparr>id_doc := newDocId e, uid := u, status := ''Processing'',
                               createdAt := serverTimestamp e\<rparr>;
          s1 = s\<lparr>calls := calls s @ [E_setDoc (newDocId e)]\<rparr>
      in case setDoc_error e (newDocId e) of
           Some err \<Rightarrow> (Inl err, s1)
         | None \<Rightarrow> (Inr (newDocId e),
                    s1\<lparr>videos := AList.update (newDocId e) videoData (videos s1)\<rparr>))"

text \<open>\<open>updateVideoMetadata\<close>, lines 56-59.\<close>

definition updateVideoMetadata :: "env \<Rightarrow> string \<Rightarrow> Metadata \<Rightarrow> unit io" where
  "updateVideoMetadata e videoId metadata s =
     (let s1 = s\<lparr>calls := calls s @ [E_setDoc videoId]\<rparr>
      in case setDoc_merge_error e videoId metadata of
           Some err \<Rightarrow> (Inl err, s1)
         | None \<Rightarrow> (Inr (), s1\<lparr>videos := setDoc_merge videoId metadata (videos s1)\<rparr>))"

text \<open>\<open>getVideo\<close>, lines 61-68: keyed by the document identifier alone.\<close>

definition getVideo :: "env \<Rightarrow> string \<Rightarrow> VideoDetails option io" where
  "getVideo e videoId s =
     (case getDoc_error e videoId of
        Some err \<Rightarrow> (Inl err, s)
      | None \<Rightarrow> (Inr (map_of (videos s) videoId), s))"

fun matches :: "query \<Rightarrow> VideoDetails \<Rightarrow> bool" where
  "matches (ByOwner u) v = (uid v = u)"
| "matches (ByOwnerCreatedBetween u lo hi) v =
     (uid v = u \<and> lo \<le> createdAt v \<and> createdAt v \<le> hi)"
| "matches (ByOwnerPlaylist u p) v = (uid v = u \<and> playlist v = Some p)"

text \<open>\<open>getDocs(query(videosRef, ...))\<close>: the documents that satisfy the query.\<close>

definition getDocs :: "env \<Rightarrow> query \<Rightarrow> VideoDetails list io" where
  "getDocs e q s =
     (case getDocs_error e q of
        Some err \<Rightarrow> (Inl err, s)
      | None \<Rightarrow> (Inr (filter (matches q) (map snd (videos s))), s))"

text \<open>\<open>getAllVideos\<close>, lines 70-75.\<close>

definition getAllVideos :: "env \<Rightarrow> string \<Rightarrow> VideoDetails list io" where
  "getAllVideos e u = getDocs e (ByOwner u)"

text \<open>
  Local calendar arithmetic of \<open>Date\<close>, with the zone a fixed offset
  \<open>tzOffset\<close> from UTC in milliseconds: \<open>setHours(0, 0, 0, 0)\<close>,
  \<open>setHours(23, 59, 59, 999)\<close>, \<open>getDay()\<close> (0 is Sunday; day 0 of the epoch was a
  Thursday) and \<open>setDate(getDate() + k)\<close>.
\<close>

definition ms_per_day :: int where
  "ms_per_day = 24 * 60 * 60 * 1000"

definition startOfDay :: "env \<Rightarrow> int" where
  "startOfDay e = date_now e - (date_now e + tzOffset e) mod ms_per_day"

definition endOfDay :: "env \<Rightarrow> int" where
  "endOfDay e = startOfDay e + ms_per_day - 1"

definition getDay :: "env \<Rightarrow> int" where
  "getDay e = ((date_now e + tzOffset e) div ms_per_day + 4) mod 7"

definition startOfWeek :: "env \<Rightarrow> int" where
  "startOfWeek e = startOfDay e - getDay e * ms_per_day"

definition endOfWeek :: "env \<Rightarrow> int" where
  "endOfWeek e = startOfWeek e + 6 * ms_per_day + ms_per_day - 1"

record Counts =
  shorts :: nat
  longs :: nat

text \<open>The \<open>forEach\<close> of lines 92-98 and 122-128, with its two counters.\<close>

definition countStep :: "VideoDetails \<Rightarrow> Counts \<Rightarrow> Counts" where
  "countStep video c =
     (let c1 = (if videoLength video = Some Short then c\<lparr>shorts := shorts c + 1\<rparr> else c)
      in if videoLength video = Some Long then c1\<lparr>longs := longs c1 + 1\<rparr> else c1)"

definition countLengths :: "VideoDetails list \<Rightarrow> Counts" where
  "countLengths docs = fold countStep docs \<lparr>shorts = 0, longs = 0\<rparr>"

text \<open>\<open>getTodaysVideoCounts\<close>, lines 78-100.\<close>

definition getTodaysVideoCounts :: "env \<Rightarrow> string \<Rightarrow> Counts io" where
  "getTodaysVideoCounts e u =
     io_bind (getDocs e (ByOwnerCreatedBetween u (startOfDay e) (endOfDay e)))
       (\<lambda>querySnapshot. io_return (countLengths querySnapshot))"

text \<open>\<open>getThisWeeksVideoCounts\<close>, lines 102-131.\<close>

definition getThisWeeksVideoCounts :: "env \<Rightarrow> string \<Rightarrow> Counts io" where
  "getThisWeeksVideoCounts e u =
     io_bind (getDocs e (ByOwnerCreatedBetween u (startOfWeek e) (endOfWeek e)))
       (\<lambda>querySnapshot. io_return (countLengths querySnapshot))"

section \<open>Operation management (in memory)\<close>

definition ttl_ms :: int where
  "ttl_ms = 24 * 60 * 60 * 1000"

text \<open>\<open>storeOperation\<close>, lines 138-140.\<close>

definition storeOperation :: "env \<Rightarrow> string \<Rightarrow> Operation \<Rightarrow> unit io" where
  "storeOperation e opName opn s =
     (Inr (), s\<lparr>videoOperations :=
        (videoOperations s)(opName \<mapsto> \<lparr>operation = opn, storedAt = date_now e\<rparr>)\<rparr>)"

text \<open>\<open>getOperation\<close>, lines 142-150.\<close>

definition getOperation :: "env \<Rightarrow> string \<Rightarrow> OperationInfo option io" where
  "getOperation e opName s =
     (case videoOperations s opName of
        Some operationInfo \<Rightarrow>
          if date_now e - storedAt operationInfo > ttl_ms
          then (Inr None, s\<lparr>videoOperations := (videoOperations s)(opName := None)\<rparr>)
          else (Inr (Some operationInfo), s)
      | None \<Rightarrow> (Inr None, s))"

section \<open>Status reconciliation (flow check-video-status)\<close>

datatype flow_status = processing | completed | failed | not_found

record CheckVideoStatusOutput =
  status_out :: flow_status
  videoUrl_out :: "string option"

definition statusFailed :: Metadata where
  "statusFailed = noMetadata\<lparr>m_status := Some ''Failed''\<rparr>"

text \<open>The pair of statements \<open>await updateVideoMetadata(videoId, {status: 'Failed'});
  return {status: 'failed'}\<close> that ends each failing branch of the flow.\<close>

definition markFailed :: "env \<Rightarrow> string \<Rightarrow> CheckVideoStatusOutput io" where
  "markFailed e videoId =
     io_bind (updateVideoMetadata e videoId statusFailed)
       (\<lambda>_. io_return \<lparr>status_out = failed, videoUrl_out = None\<rparr>)"

text \<open>Line 79: \<open>operation.output?.message?.content.find(p => !!p.media)\<close>.\<close>

definition videoMediaPart :: "Operation \<Rightarrow> Part option" where
  "videoMediaPart opn =
     (case output_op opn of
        None \<Rightarrow> None
      | Some out \<Rightarrow>
          (case message out of
             None \<Rightarrow> None
           | Some msg \<Rightarrow> find (\<lambda>p. media p \<noteq> None) (content msg)))"

text \<open>Line 80: \<open>videoMediaPart.media?.url\<close>.\<close>

definition mediaUrl :: "Part \<Rightarrow> string option" where
  "mediaUrl p = (case media p of None \<Rightarrow> None | Some m \<Rightarrow> url m)"

definition videoPath :: "string \<Rightarrow> string" where
  "videoPath videoId = ''videos/'' @ videoId @ ''/generated_video.mp4''"

definition audioPath :: "string \<Rightarrow> string" where
  "audioPath videoId = ''videos/'' @ videoId @ ''/generated_audio.wav''"

definition finalStatus :: "VideoDetails \<Rightarrow> string" where
  "finalStatus videoDetails =
     (if truthy (suggestedUploadTime videoDetails) then ''Scheduled'' else ''Generated'')"

text \<open>
  The body of the \<open>try\<close> block, lines 87-113: upload the video, derive its URL,
  generate and upload the audio, derive its URL, write both URLs with the final status,
  start the thumbnail generation without awaiting it.
\<close>

definition materializeAssets ::
    "env \<Rightarrow> string \<Rightarrow> VideoDetails \<Rightarrow> string \<Rightarrow> CheckVideoStatusOutput io" where
  "materializeAssets e videoId videoDetails dataUrl =
     io_bind (io_call (E_uploadString (videoPath videoId))
                (io_unit (uploadString e (videoPath videoId) dataUrl))) (\<lambda>_.
     io_bind (\<lambda>s. (getDownloadURL e (videoPath videoId), s)) (\<lambda>videoUrl'.
     io_bind (io_call E_generateSpeechAudio
                (generateSpeechAudio e (script videoDetails))) (\<lambda>audioDataUri.
     io_bind (io_call (E_uploadString (audioPath videoId))
                (io_unit (uploadString e (audioPath videoId) audioDataUri))) (\<lambda>_.
     io_bind (\<lambda>s. (getDownloadURL e (audioPath videoId), s)) (\<lambda>audioUrl'.
     io_bind (updateVideoMetadata e videoId
                (noMetadata\<lparr>m_videoUrl := Some videoUrl', m_audioUrl := Some audioUrl',
                             m_status := Some (finalStatus videoDetails)\<rparr>)) (\<lambda>_.
     io_bind (if finalStatus videoDetails = ''Scheduled''
                 \<or> finalStatus videoDetails = ''Generated''
              then io_call (E_generateThumbnail videoId) (Inr ())
              else io_return ()) (\<lambda>_.
     io_return \<lparr>status_out = completed, videoUrl_out = Some videoUrl'\<rparr>)))))))"

text \<open>\<open>checkVideoStatusFlow\<close>, lines 41-122 of the flow.\<close>

definition checkVideoStatusFlow :: "env \<Rightarrow> string \<Rightarrow> CheckVideoStatusOutput io" where
  "checkVideoStatusFlow e videoId =
     io_bind (getVideo e videoId) (\<lambda>found.
       case found of
         None \<Rightarrow> io_return \<lparr>status_out = not_found, videoUrl_out = None\<rparr>
       | Some videoDetails \<Rightarrow>
           if truthy (videoUrl videoDetails) \<and> truthy (audioUrl videoDetails)
           then io_return \<lparr>status_out = completed, videoUrl_out = videoUrl videoDetails\<rparr>
           else
             (case operationName videoDetails of
                None \<Rightarrow> markFailed e videoId
              | Some opName \<Rightarrow>
                  if opName = [] then markFailed e videoId
                  else
                    io_bind (getOperation e opName) (\<lambda>operationInfo.
                      case operationInfo of
                        None \<Rightarrow> markFailed e videoId
                      | Some info \<Rightarrow>
                          io_bind
                            (if \<not> done_op (operation info)
                             then io_call (E_checkOperation opName)
                                    (checkOperation e (operation info))
                             else io_return (operation info)) (\<lambda>opn.
                            if done_op opn then
                              (if error_op opn \<noteq> None then markFailed e videoId
                               else
                                 (case videoMediaPart opn of
                                    None \<Rightarrow> markFailed e videoId
                                  | Some part \<Rightarrow>
                                      (case mediaUrl part of
                                         None \<Rightarrow> markFailed e videoId
                                       | Some dataUrl \<Rightarrow>
                                           if dataUrl = [] then markFailed e videoId
                                           else io_catch
                                                  (materializeAssets e videoId videoDetails
                                                     dataUrl)
                                                  (\<lambda>_. markFailed e videoId))))
                            else io_return \<lparr>status_out = processing,
                                             videoUrl_out = None\<rparr>))))"

text \<open>\<open>checkVideoStatus\<close>, lines 31-33.\<close>

definition checkVideoStatus :: "env \<Rightarrow> string \<Rightarrow> CheckVideoStatusOutput io" where
  "checkVideoStatus e videoId = checkVideoStatusFlow e videoId"

section \<open>Playlists\<close>

text \<open>\<open>Set.add\<close> into a set that \<open>Array.from\<close> lists in insertion order.\<close>

definition set_add :: "string \<Rightarrow> string list \<Rightarrow> string list" where
  "set_add x xs = (if x \<in> set xs then xs else xs @ [x])"

text \<open>\<open>getPlaylists\<close>, lines 157-166.\<close>

definition getPlaylists :: "env \<Rightarrow> string \<Rightarrow> string list io" where
  "getPlaylists e u =
     io_bind (getAllVideos e u) (\<lambda>vs.
       io_return (fold (\<lambda>video playlists.
           (case playlist video of
              Some p \<Rightarrow> if p \<noteq> [] then set_add p playlists else playlists
            | None \<Rightarrow> playlists)) vs []))"

text \<open>\<open>countVideosInPlaylist\<close>, lines 168-173.\<close>

definition countVideosInPlaylist :: "env \<Rightarrow> string \<Rightarrow> string \<Rightarrow> nat io" where
  "countVideosInPlaylist e u p =
     io_bind (getDocs e (ByOwnerPlaylist u p)) (\<lambda>querySnapshot.
       io_return (length querySnapshot))"

section \<open>Job submission\<close>

text \<open>
  Modelled from the spec: the render submission \<open>createAIVideo\<close> (flow
  \<open>create-ai-video\<close>), which \<open>createAndProcessVideo\<close> awaits and whose source is not
  among the files. The spec gives it as \<open>submit({script, videoId}) \<rightarrow> operationName\<close>,
  says that an operation descriptor is created in the operation cache when a render
  operation is submitted, and that the stored record then has \<open>operationName\<close> set. So:
  the submission may fail; when it succeeds the descriptor is stored under its name and
  the name is merged into the video record.
\<close>

definition createAIVideo :: "env \<Rightarrow> string \<Rightarrow> string \<Rightarrow> unit io" where
  "createAIVideo e script_text videoId =
     io_bind (io_call (E_createAIVideo videoId) (submitRender e script_text videoId)) (\<lambda>opn.
     io_bind (storeOperation e (name_op opn) opn) (\<lambda>_.
     updateVideoMetadata e videoId (noMetadata\<lparr>m_operationName := Some (name_op opn)\<rparr>)))"

text \<open>\<open>x || d\<close> on an optional string.\<close>

definition or_default :: "string option \<Rightarrow> string \<Rightarrow> string" where
  "or_default x d = (case x of Some s \<Rightarrow> if s \<noteq> [] then s else d | None \<Rightarrow> d)"

text \<open>\<open>createAndProcessVideo\<close>, lines 180-218.\<close>

definition createAndProcessVideo ::
    "env \<Rightarrow> string \<Rightarrow> video_length \<Rightarrow> string option \<Rightarrow> string option \<Rightarrow> string option
      \<Rightarrow> string option \<Rightarrow> string option \<Rightarrow> (string \<times> string) io" where
  "createAndProcessVideo e u len playlist_arg topic title_arg inspirationVideoUrl script_arg =
     io_bind (\<lambda>s. (Inr (), s\<lparr>calls := calls s @ [E_createAndProcessVideo
         \<lparr>job_uid = u, job_length = len, job_playlist = playlist_arg, job_topic = topic,
          job_title = title_arg, job_inspirationVideoUrl = inspirationVideoUrl,
          job_script = script_arg\<rparr>]\<rparr>)) (\<lambda>_.
     io_bind
       (let inp = \<lparr>si_length = len, si_topic = topic, si_videoTitle = title_arg,
                   si_inspirationVideoUrl = inspirationVideoUrl\<rparr>;
            generate = io_call (E_generateVideoScript inp) (generateVideoScript e inp)
        in case script_arg of
             None \<Rightarrow> generate
           | Some sc \<Rightarrow>
               if sc = [] then generate
               else io_return \<lparr>sr_title = or_default title_arg ''Untitled'',
                               sr_script = sc,
                               sr_topic = or_default topic ''Custom Script''\<rparr>)
       (\<lambda>scriptResult.
     io_bind
       (io_call E_optimizeYoutubeUpload
          (optimizeYoutubeUpload e
             \<lparr>oi_videoTitle = sr_title scriptResult, oi_script = sr_script scriptResult,
              oi_videoCategory = ''Technology'', oi_videoDescription = '' '',
              oi_videoTags = []\<rparr>))
       (\<lambda>optimizationResult.
     io_bind
       (addNewVideo e u
          \<lparr>id_doc = [], uid = [], title = sr_title scriptResult,
           script = sr_script scriptResult, videoLength = Some len, thumbnailUrl = None,
           playlist = playlist_arg, status = [],
           optimizedTitle = or_optimizedTitle optimizationResult,
           optimizedDescription = or_optimizedDescription optimizationResult,
           optimizedTags = or_optimizedTags optimizationResult,
           optimizedCategory = or_optimizedCategory optimizationResult,
           suggestedUploadTime = or_suggestedUploadTime optimizationResult,
           createdAt = 0, videoUrl = None, audioUrl = None, operationName = None\<rparr>)
       (\<lambda>videoId.
     io_bind (createAIVideo e (sr_script scriptResult) videoId) (\<lambda>_.
     io_return (videoId, or_optimizedTitle optimizationResult))))))"

section \<open>Auto-pilot\<close>

definition weeklyLongGoal :: int where
  "weeklyLongGoal = 2"

definition dailyShortGoal :: int where
  "dailyShortGoal = 3"

text \<open>Decimal rendering of a number in a template literal.\<close>

definition digit_char :: "nat \<Rightarrow> char" where
  "digit_char d = ''0123456789'' ! (d mod 10)"

fun show_nat :: "nat \<Rightarrow> string" where
  "show_nat n = (if n < 10 then [digit_char n] else show_nat (n div 10) @ [digit_char n])"

declare show_nat.simps [simp del]

definition shortJob :: "string \<Rightarrow> Job" where
  "shortJob u = \<lparr>job_uid = u, job_length = Short, job_playlist = None,
     job_topic = Some ''a trending topic'', job_title = None,
     job_inspirationVideoUrl = None, job_script = None\<rparr>"

text \<open>
  The loop of lines 231-233. \<open>jobEnv i\<close> is what the outside world does during the
  \<open>i\<close>-th submission.
\<close>

function createShortsLoop :: "(nat \<Rightarrow> env) \<Rightarrow> string \<Rightarrow> nat \<Rightarrow> nat \<Rightarrow> unit io" where
  "createShortsLoop jobEnv u shortsNeeded i =
     (if i < shortsNeeded
      then io_bind (createAndProcessVideo (jobEnv i) u Short None (Some ''a trending topic'')
                      None None None)
             (\<lambda>_. createShortsLoop jobEnv u shortsNeeded (Suc i))
      else io_return ())"
  by pat_completeness auto
termination
  by (relation "measure (\<lambda>(jobEnv, u, shortsNeeded, i). shortsNeeded - i)") auto

declare createShortsLoop.simps [simp del]

text \<open>\<open>createShorts\<close>, lines 226-237.\<close>

definition createShorts :: "env \<Rightarrow> (nat \<Rightarrow> env) \<Rightarrow> string \<Rightarrow> unit io" where
  "createShorts e jobEnv u =
     io_bind (getTodaysVideoCounts e u) (\<lambda>counts.
       let currentShorts = shorts counts;
           shortsNeeded = max 0 (dailyShortGoal - int currentShorts)
       in if shortsNeeded > 0 then createShortsLoop jobEnv u (nat shortsNeeded) 0
          else io_return ())"

text \<open>Line 256: \<open>`${topic} - Part ${startPart + i}`\<close>.\<close>

definition partTitle :: "string \<Rightarrow> nat \<Rightarrow> string" where
  "partTitle topic n = topic @ '' - Part '' @ show_nat n"

text \<open>The loop of lines 255-258.\<close>

function createLongsLoop ::
    "(nat \<Rightarrow> env) \<Rightarrow> string \<Rightarrow> string \<Rightarrow> string \<Rightarrow> nat \<Rightarrow> nat \<Rightarrow> nat \<Rightarrow> unit io" where
  "createLongsLoop jobEnv u topic playlist_name startPart longsNeeded i =
     (if i < longsNeeded
      then io_bind (createAndProcessVideo (jobEnv i) u Long (Some playlist_name) (Some topic)
                      (Some (partTitle topic (startPart + i))) None None)
             (\<lambda>_. createLongsLoop jobEnv u topic playlist_name startPart longsNeeded (Suc i))
      else io_return ())"
  by pat_completeness auto
termination
  by (relation "measure (\<lambda>(jobEnv, u, topic, playlist_name, startPart, longsNeeded, i).
        longsNeeded - i)") auto

declare createLongsLoop.simps [simp del]

text \<open>\<open>createLongs\<close>, lines 239-262.\<close>

definition createLongs :: "env \<Rightarrow> (nat \<Rightarrow> env) \<Rightarrow> string \<Rightarrow> unit io" where
  "createLongs e jobEnv u =
     io_bind (getThisWeeksVideoCounts e u) (\<lambda>counts.
       let currentLongs = longs counts;
           longsNeeded = max 0 (weeklyLongGoal - int currentLongs)
       in if longsNeeded > 0 then
            io_bind (getPlaylists e u) (\<lambda>existingPlaylists.
            io_bind (io_call (E_suggestSeriesStrategy existingPlaylists)
                       (suggestSeriesStrategy e existingPlaylists)) (\<lambda>seriesSuggestion.
            io_bind (if ss_isNewSeries seriesSuggestion then io_return 1
                     else io_bind (countVideosInPlaylist e u (ss_playlist seriesSuggestion))
                            (\<lambda>n. io_return (n + 1))) (\<lambda>startPart.
            createLongsLoop jobEnv u (ss_topic seriesSuggestion)
              (ss_playlist seriesSuggestion) startPart (nat longsNeeded) 0)))
          else io_return ())"

text \<open>\<open>runAutoPilot\<close>, lines 222-269.\<close>

definition runAutoPilot :: "env \<Rightarrow> (nat \<Rightarrow> env) \<Rightarrow> string \<Rightarrow> video_length \<Rightarrow> unit io" where
  "runAutoPilot e jobEnv u videoType =
     (case videoType of Long \<Rightarrow> createLongs e jobEnv u | Short \<Rightarrow> createShorts e jobEnv u)"

section \<open>Histories of core operations\<close>

text \<open>
  A call of one of the two core operations that create and mutate video records, with
  the behaviour of the outside world during that call.
\<close>

datatype action =
    Create env string video_length "string option" "string option" "string option"
      "string option" "string option"
  | Check env string

fun perform :: "action \<Rightarrow> state \<Rightarrow> state" where
  "perform (Create e u len pl topic ttl insp scr) s =
     snd (createAndProcessVideo e u len pl topic ttl insp scr s)"
| "perform (Check e videoId) s = snd (checkVideoStatus e videoId s)"

text \<open>The state after a history of calls, whether they returned or threw.\<close>

definition run_actions :: "action list \<Rightarrow> state \<Rightarrow> state" where
  "run_actions acts s = fold perform acts s"

section \<open>Vocabulary of the properties\<close>

definition terminal_status :: "string \<Rightarrow> bool" where
  "terminal_status st = (st = ''Generated'' \<or> st = ''Scheduled'' \<or> st = ''Published'')"

definition assets_complete :: "VideoDetails \<Rightarrow> bool" where
  "assets_complete v = (truthy (videoUrl v) \<and> truthy (audioUrl v))"

definition assets_absent :: "VideoDetails \<Rightarrow> bool" where
  "assets_absent v = (videoUrl v = None \<and> audioUrl v = None)"

text \<open>A terminal status comes with both URLs, and the two URLs come together.\<close>

definition record_ok :: "VideoDetails \<Rightarrow> bool" where
  "record_ok v = ((terminal_status (status v) \<longrightarrow> assets_complete v)
     \<and> (assets_complete v \<or> assets_absent v))"

text \<open>The asset store hands out download URLs that are not empty.\<close>

definition downloadURLs_nonempty :: "env \<Rightarrow> bool" where
  "downloadURLs_nonempty e = (\<forall>p u. getDownloadURL e p = Inr u \<longrightarrow> u \<noteq> [])"

fun asset_store_ok :: "action \<Rightarrow> bool" where
  "asset_store_ok (Check e videoId) = downloadURLs_nonempty e"
| "asset_store_ok (Create e u len pl topic ttl insp scr) = True"

text \<open>The single write of a successful materialization, lines 102-106.\<close>

definition urlsMetadata :: "string \<Rightarrow> string \<Rightarrow> string \<Rightarrow> Metadata" where
  "urlsMetadata u a st =
     noMetadata\<lparr>m_videoUrl := Some u, m_audioUrl := Some a, m_status := Some st\<rparr>"

definition failed_out :: CheckVideoStatusOutput where
  "failed_out = \<lparr>status_out = failed, videoUrl_out = None\<rparr>"

definition status_of :: "state \<Rightarrow> string \<Rightarrow> string option" where
  "status_of s videoId = map_option status (map_of (videos s) videoId)"

text \<open>The jobs submitted in a sequence of calls.\<close>

fun submitted :: "event list \<Rightarrow> Job list" where
  "submitted [] = []"
| "submitted (E_createAndProcessVideo j # evs) = j # submitted evs"
| "submitted (ev # evs) = submitted evs"

text \<open>
  The videos of a user of one length class created in a closed interval of time,
  whatever their status.
\<close>

definition videosOf :: "string \<Rightarrow> video_length \<Rightarrow> int \<Rightarrow> int \<Rightarrow> state \<Rightarrow> VideoDetails list" where
  "videosOf u len lo hi s =
     filter (\<lambda>v. uid v = u \<and> videoLength v = Some len \<and> lo \<le> createdAt v \<and> createdAt v \<le> hi)
       (map snd (videos s))"

definition todaysShorts :: "env \<Rightarrow> string \<Rightarrow> state \<Rightarrow> nat" where
  "todaysShorts e u s = length (videosOf u Short (startOfDay e) (endOfDay e) s)"

definition thisWeeksLongs :: "env \<Rightarrow> string \<Rightarrow> state \<Rightarrow> nat" where
  "thisWeeksLongs e u s = length (videosOf u Long (startOfWeek e) (endOfWeek e) s)"

definition playlistSize :: "string \<Rightarrow> string \<Rightarrow> state \<Rightarrow> nat" where
  "playlistSize u p s =
     length (filter (\<lambda>v. uid v = u \<and> playlist v = Some p) (map snd (videos s)))"

definition longJob :: "string \<Rightarrow> string \<Rightarrow> string \<Rightarrow> nat \<Rightarrow> Job" where
  "longJob u topic playlist_name n = \<lparr>job_uid = u, job_length = Long,
     job_playlist = Some playlist_name, job_topic = Some topic,
     job_title = Some (topic @ '' - Part '' @ show_nat n),
     job_inspirationVideoUrl = None, job_script = None\<rparr>"

text \<open>The store with every status rewritten by \<open>f\<close>, and the store of one user.\<close>

definition restatus :: "(VideoDetails \<Rightarrow> string) \<Rightarrow> state \<Rightarrow> state" where
  "restatus f s = s\<lparr>videos := map (\<lambda>(i, v). (i, v\<lparr>status := f v\<rparr>)) (videos s)\<rparr>"

definition ownedBy :: "string \<Rightarrow> state \<Rightarrow> state" where
  "ownedBy u s = s\<lparr>videos := filter (\<lambda>(i, v). uid v = u) (videos s)\<rparr>"

text \<open>A world in which every step of a job submission succeeds.\<close>

definition collaborators_ok :: "env \<Rightarrow> bool" where
  "collaborators_ok e =
     ((\<forall>inp. \<exists>sr. generateVideoScript e inp = Inr sr)
      \<and> (\<forall>inp. \<exists>opt. optimizeYoutubeUpload e inp = Inr opt)
      \<and> (\<forall>sc videoId. \<exists>opn. submitRender e sc videoId = Inr opn)
      \<and> (\<forall>videoId. setDoc_error e videoId = None)
      \<and> (\<forall>videoId m. setDoc_merge_error e videoId m = None))"

section \<open>Pieces of the operations, named for the proofs\<close>

definition nameMetadata :: "string \<Rightarrow> Metadata" where
  "nameMetadata n = noMetadata\<lparr>m_operationName := Some n\<rparr>"

definition store_inv :: "(VideoDetails \<Rightarrow> bool) \<Rightarrow> (string \<times> VideoDetails) list \<Rightarrow> bool" where
  "store_inv P vs = (\<forall>(i, v) \<in> set vs. P v)"

definition processing_without_assets :: "VideoDetails \<Rightarrow> bool" where
  "processing_without_assets v = (status v = ''Processing'' \<longrightarrow> assets_absent v)"

text \<open>Step 1 of \<open>createAndProcessVideo\<close>, lines 181-187.\<close>

definition scriptStep ::
    "env \<Rightarrow> video_length \<Rightarrow> string option \<Rightarrow> string option \<Rightarrow> string option
      \<Rightarrow> string option \<Rightarrow> ScriptResult io" where
  "scriptStep e len topic title_arg inspirationVideoUrl script_arg =
     (let inp = \<lparr>si_length = len, si_topic = topic, si_videoTitle = title_arg,
                 si_inspirationVideoUrl = inspirationVideoUrl\<rparr>;
          generate = io_call (E_generateVideoScript inp) (generateVideoScript e inp)
      in case script_arg of
           None \<Rightarrow> generate
         | Some sc \<Rightarrow>
             if sc = [] then generate
             else io_return \<lparr>sr_title = or_default title_arg ''Untitled'',
                             sr_script = sc,
                             sr_topic = or_default topic ''Custom Script''\<rparr>)"

text \<open>The argument of the optimizer, lines 192-198.\<close>

definition optimizeInput :: "ScriptResult \<Rightarrow> OptimizeInput" where
  "optimizeInput scriptResult =
     \<lparr>oi_videoTitle = sr_title scriptResult, oi_script = sr_script scriptResult,
      oi_videoCategory = ''Technology'', oi_videoDescription = '' '', oi_videoTags = []\<rparr>"

text \<open>The argument of \<open>addNewVideo\<close>, lines 202-212.\<close>

definition newDetails ::
    "video_length \<Rightarrow> string option \<Rightarrow> ScriptResult \<Rightarrow> OptimizationResult \<Rightarrow> VideoDetails" where
  "newDetails len playlist_arg scriptResult optimizationResult =
     \<lparr>id_doc = [], uid = [], title = sr_title scriptResult,
      script = sr_script scriptResult, videoLength = Some len, thumbnailUrl = None,
      playlist = playlist_arg, status = [],
      optimizedTitle = or_optimizedTitle optimizationResult,
      optimizedDescription = or_optimizedDescription optimizationResult,
      optimizedTags = or_optimizedTags optimizationResult,
      optimizedCategory = or_optimizedCategory optimizationResult,
      suggestedUploadTime = or_suggestedUploadTime optimizationResult,
      createdAt = 0, videoUrl = None, audioUrl = None, operationName = None\<rparr>"

text \<open>The document that \<open>addNewVideo\<close> writes, lines 43-49.\<close>

definition videoData :: "env \<Rightarrow> string \<Rightarrow> VideoDetails \<Rightarrow> VideoDetails" where
  "videoData e u details = details\<lparr>id_doc := newDocId e, uid := u, status := ''Processing'',
     createdAt := serverTimestamp e\<rparr>"

text \<open>Steps 3 and 4 of \<open>createAndProcessVideo\<close>, lines 202-217.\<close>

definition persistAndSubmit ::
    "env \<Rightarrow> string \<Rightarrow> VideoDetails \<Rightarrow> string \<Rightarrow> string \<Rightarrow> (string \<times> string) io" where
  "persistAndSubmit e u details sc t =
     io_bind (addNewVideo e u details) (\<lambda>videoId.
     io_bind (createAIVideo e sc videoId) (\<lambda>_. io_return (videoId, t)))"

definition jobOf ::
    "string \<Rightarrow> video_length \<Rightarrow> string option \<Rightarrow> string option \<Rightarrow> string option
      \<Rightarrow> string option \<Rightarrow> string option \<Rightarrow> Job" where
  "jobOf u len playlist_arg topic title_arg inspirationVideoUrl script_arg =
     \<lparr>job_uid = u, job_length = len, job_playlist = playlist_arg, job_topic = topic,
      job_title = title_arg, job_inspirationVideoUrl = inspirationVideoUrl,
      job_script = script_arg\<rparr>"

text \<open>
  The partial objects the two operations merge into a record, with \<open>U\<close> a property of
  the URLs the asset store hands out; and what it takes for a property of records to
  survive every write of the two operations.
\<close>

definition written :: "(string \<Rightarrow> bool) \<Rightarrow> Metadata \<Rightarrow> bool" where
  "written U m = (m = statusFailed \<or> (\<exists>n. m = nameMetadata n)
     \<or> (\<exists>u a w. U u \<and> U a \<and> m = urlsMetadata u a (finalStatus w)))"

definition closed_under :: "(VideoDetails \<Rightarrow> bool) \<Rightarrow> (string \<Rightarrow> bool) \<Rightarrow> bool" where
  "closed_under P U =
     ((\<forall>vd. status vd = ''Processing'' \<and> videoUrl vd = None \<and> audioUrl vd = None \<longrightarrow> P vd)
      \<and> (\<forall>v m. P v \<and> written U m \<longrightarrow> P (mergeMetadata v m))
      \<and> (\<forall>k m. written U m \<longrightarrow> P (mergeMetadata (emptyDocument k) m)))"

fun env_urls :: "(string \<Rightarrow> bool) \<Rightarrow> action \<Rightarrow> bool" where
  "env_urls U (Check e videoId) = (\<forall>p u. getDownloadURL e p = Inr u \<longrightarrow> U u)"
| "env_urls U (Create e u len pl topic ttl insp scr) = True"

section \<open>Example inputs\<close>

text \<open>A render operation that is still running, and the same operation finished, with a
  part that carries no media before the part that carries the video.\<close>

definition ex_pending :: Operation where
  "ex_pending = \<lparr>name_op = ''op1'', done_op = False, error_op = None, output_op = None\<rparr>"

definition ex_finished :: Operation where
  "ex_finished = \<lparr>name_op = ''op1'', done_op = True, error_op = None,
     output_op = Some \<lparr>message = Some \<lparr>content =
       [\<lparr>media = None\<rparr>, \<lparr>media = Some \<lparr>url = Some ''data:video/mp4;base64,AAAA''\<rparr>\<rparr>]\<rparr>\<rparr>\<rparr>"

text \<open>A world in which every collaborator answers.\<close>

definition ex_env :: env where
  "ex_env = \<lparr>date_now = 1000, tzOffset = 0, serverTimestamp = 1000, newDocId = ''v1'',
     getDoc_error = (\<lambda>_. None), getDocs_error = (\<lambda>_. None), setDoc_error = (\<lambda>_. None),
     setDoc_merge_error = (\<lambda>_ _. None),
     checkOperation = (\<lambda>opn. Inr opn),
     uploadString = (\<lambda>_ _. None),
     getDownloadURL = (\<lambda>p. Inr (''https://storage.example/'' @ p)),
     generateSpeechAudio = (\<lambda>_. Inr ''data:audio/wav;base64,BBBB''),
     generateVideoScript = (\<lambda>i. Inr \<lparr>sr_title = or_default (si_videoTitle i) ''A title'',
        sr_script = ''a script'', sr_topic = or_default (si_topic i) ''a topic''\<rparr>),
     optimizeYoutubeUpload = (\<lambda>i. Inr \<lparr>or_optimizedTitle = oi_videoTitle i @ ''!'',
        or_optimizedDescription = None, or_optimizedTags = None, or_optimizedCategory = None,
        or_suggestedUploadTime = None\<rparr>),
     submitRender = (\<lambda>_ _. Inr ex_pending),
     suggestSeriesStrategy = (\<lambda>_. Inr \<lparr>ss_topic = ''Rust'', ss_playlist = ''Rust series'',
        ss_isNewSeries = True\<rparr>)\<rparr>"

text \<open>The same world a little later, when the render operation has finished.\<close>

definition ex_env_finished :: env where
  "ex_env_finished = ex_env\<lparr>date_now := 5000, checkOperation := (\<lambda>_. Inr ex_finished)\<rparr>"

text \<open>The same world more than a day later.\<close>

definition ex_env_late :: env where
  "ex_env_late = ex_env\<lparr>date_now := 1000 + 25 * 60 * 60 * 1000\<rparr>"

text \<open>A first submission, by user \<open>u1\<close>.\<close>

definition ex_create :: action where
  "ex_create = Create ex_env ''u1'' Short None None (Some ''My Title'') None None"

text \<open>The record that \<open>ex_create\<close> leaves in the store, and the record once its assets
  are stored.\<close>

definition ex_record :: VideoDetails where
  "ex_record = \<lparr>id_doc = ''v1'', uid = ''u1'', title = ''My Title'', script = ''a script'',
     videoLength = Some Short, thumbnailUrl = None, playlist = None, status = ''Processing'',
     optimizedTitle = ''My Title!'', optimizedDescription = None, optimizedTags = None,
     optimizedCategory = None, suggestedUploadTime = None, createdAt = 1000,
     videoUrl = None, audioUrl = None, operationName = Some ''op1''\<rparr>"

definition ex_record_generated :: VideoDetails where
  "ex_record_generated = ex_record\<lparr>status := ''Generated'',
     videoUrl := Some ''https://storage.example/videos/v1/generated_video.mp4'',
     audioUrl := Some ''https://storage.example/videos/v1/generated_audio.wav''\<rparr>"

text \<open>The state after \<open>ex_create\<close>, with an empty list of calls, and the state once the
  assets of the video are stored.\<close>

definition ex_state :: state where
  "ex_state = \<lparr>videos = [(''v1'', ex_record)],
     videoOperations = [''op1'' \<mapsto> \<lparr>operation = ex_pending, storedAt = 1000\<rparr>],
     calls = []\<rparr>"

definition ex_state_generated :: state where
  "ex_state_generated = ex_state\<lparr>videos := [(''v1'', ex_record_generated)]\<rparr>"

text \<open>Worlds in which one collaborator fails: the document store rejects every merge, the
  speech generator fails, the render submission fails, the script generator fails.\<close>

definition ex_env_store_down :: env where
  "ex_env_store_down = ex_env_finished\<lparr>setDoc_merge_error := (\<lambda>_ _. Some StoreError)\<rparr>"

definition ex_env_speech_down :: env where
  "ex_env_speech_down = ex_env_finished\<lparr>generateSpeechAudio := (\<lambda>_. Inl SpeechError)\<rparr>"

text \<open>The media URL that \<open>ex_finished\<close> carries.\<close>

definition ex_dataUrl :: string where
  "ex_dataUrl = ''data:video/mp4;base64,AAAA''"

definition ex_env_render_down :: env where
  "ex_env_render_down = ex_env\<lparr>submitRender := (\<lambda>_ _. Inl RenderError)\<rparr>"

definition ex_env_script_down :: env where
  "ex_env_script_down = ex_env\<lparr>generateVideoScript := (\<lambda>_. Inl GenerationError)\<rparr>"

text \<open>The worlds of the successive submissions of an auto-pilot run: each new document
  gets an identifier of its own.\<close>

definition ex_jobEnv :: "nat \<Rightarrow> env" where
  "ex_jobEnv i = ex_env\<lparr>newDocId := replicate (Suc i) (CHR ''j'')\<rparr>"

text \<open>Three short videos of \<open>u1\<close> created today, none of them generated.\<close>

definition ex_state_three_shorts :: state where
  "ex_state_three_shorts = ex_state\<lparr>videos :=
     [(''a'', ex_record\<lparr>id_doc := ''a'', status := ''Failed''\<rparr>),
      (''b'', ex_record\<lparr>id_doc := ''b'', status := ''Failed''\<rparr>),
      (''c'', ex_record\<lparr>id_doc := ''c'', status := ''Processing''\<rparr>)]\<rparr>"

text \<open>Another user, who owns no record of \<open>ex_state\<close>.\<close>

definition ex_requester :: string where
  "ex_requester = ''u2''"

text \<open>One long video of \<open>u1\<close> created this week, in the playlist \<open>Rust series\<close>, and
  a strategist that continues that series.\<close>

definition ex_state_one_long :: state where
  "ex_state_one_long = ex_state\<lparr>videos :=
     [(''v1'', ex_record\<lparr>videoLength := Some Long, playlist := Some ''Rust series''\<rparr>)]\<rparr>"

definition ex_env_continuing :: env where
  "ex_env_continuing = ex_env\<lparr>suggestSeriesStrategy :=
     (\<lambda>_. Inr \<lparr>ss_topic = ''Rust'', ss_playlist = ''Rust series'', ss_isNewSeries = False\<rparr>)\<rparr>"

text \<open>The two suggestions.\<close>

definition ex_new_series :: SeriesSuggestion where
  "ex_new_series = \<lparr>ss_topic = ''Rust'', ss_playlist = ''Rust series'', ss_isNewSeries = True\<rparr>"

definition ex_continued_series :: SeriesSuggestion where
  "ex_continued_series =
     \<lparr>ss_topic = ''Rust'', ss_playlist = ''Rust series'', ss_isNewSeries = False\<rparr>"

text \<open>A store with a record of \<open>u1\<close> and a record of \<open>u2\<close>.\<close>

definition ex_state_two_users :: state where
  "ex_state_two_users = ex_state\<lparr>videos :=
     [(''v1'', ex_record), (''v2'', ex_record\<lparr>id_doc := ''v2'', uid := ''u2''\<rparr>)]\<rparr>"

section \<open>Effects of the operations on the store\<close>

lemmas io_defs = io_bind_def io_return_def io_catch_def io_call_def io_unit_def

lemma markFailed_eq:
  "markFailed e videoId s =
     (case setDoc_merge_error e videoId statusFailed of
        Some err \<Rightarrow> (Inl err, s\<lparr>calls := calls s @ [E_setDoc videoId]\<rparr>)
      | None \<Rightarrow> (Inr failed_out,
                 s\<lparr>calls := calls s @ [E_setDoc videoId],
                   videos := setDoc_merge videoId statusFailed (videos s)\<rparr>))"
  by (simp add: markFailed_def updateVideoMetadata_def io_defs Let_def failed_out_def
      split: option.splits)

lemma markFailed_effect:
  "markFailed e videoId s = (r, s') \<Longrightarrow>
     videoOperations s' = videoOperations s \<and>
     (case r of
        Inl err \<Rightarrow> videos s' = videos s
      | Inr out \<Rightarrow> out = failed_out
          \<and> videos s' = setDoc_merge videoId statusFailed (videos s))"
  by (auto simp: markFailed_eq split: option.splits)

lemma materializeAssets_effect:
  "materializeAssets e videoId v d s = (r, s') \<Longrightarrow>
     videoOperations s' = videoOperations s \<and>
     (case r of
        Inl err \<Rightarrow> videos s' = videos s
      | Inr out \<Rightarrow>
          (\<exists>u a. getDownloadURL e (videoPath videoId) = Inr u
               \<and> getDownloadURL e (audioPath videoId) = Inr a
               \<and> out = \<lparr>status_out = completed, videoUrl_out = Some u\<rparr>
               \<and> videos s' =
                   setDoc_merge videoId (urlsMetadata u a (finalStatus v)) (videos s)))"
  by (auto simp: materializeAssets_def updateVideoMetadata_def io_defs Let_def urlsMetadata_def
      split: option.splits sum.splits if_splits prod.splits)

lemma materializeAssets_raised:
  "materializeAssets e videoId v d s = (Inl err, s') \<Longrightarrow>
     uploadString e (videoPath videoId) d = Some err
     \<or> getDownloadURL e (videoPath videoId) = Inl err
     \<or> generateSpeechAudio e (script v) = Inl err
     \<or> (\<exists>a. uploadString e (audioPath videoId) a = Some err)
     \<or> getDownloadURL e (audioPath videoId) = Inl err
     \<or> (\<exists>u a. setDoc_merge_error e videoId (urlsMetadata u a (finalStatus v)) = Some err)"
  by (auto simp: materializeAssets_def updateVideoMetadata_def io_defs Let_def urlsMetadata_def
      split: option.splits sum.splits if_splits prod.splits)

lemma checkVideoStatus_effect:
  "checkVideoStatus e videoId s = (r, s') \<Longrightarrow>
     (videos s' = videos s
      \<or> videos s' = setDoc_merge videoId statusFailed (videos s)
      \<or> (\<exists>u a v. map_of (videos s) videoId = Some v
            \<and> \<not> (truthy (videoUrl v) \<and> truthy (audioUrl v))
            \<and> getDownloadURL e (videoPath videoId) = Inr u
            \<and> getDownloadURL e (audioPath videoId) = Inr a
            \<and> r = Inr \<lparr>status_out = completed, videoUrl_out = Some u\<rparr>
            \<and> videos s' =
                setDoc_merge videoId (urlsMetadata u a (finalStatus v)) (videos s)))"
  apply (simp add: checkVideoStatus_def checkVideoStatusFlow_def getVideo_def io_defs
      getOperation_def split: option.splits sum.splits if_splits prod.splits)
  apply (auto dest!: markFailed_effect materializeAssets_effect split: sum.splits)
  done

lemma createAIVideo_effect:
  "createAIVideo e sc videoId s = (r, s') \<Longrightarrow>
     videos s' = videos s
     \<or> (\<exists>n. videos s' = setDoc_merge videoId (nameMetadata n) (videos s))"
  by (auto simp: createAIVideo_def storeOperation_def updateVideoMetadata_def io_defs Let_def
        nameMetadata_def
      split: option.splits sum.splits if_splits prod.splits)

lemma addNewVideo_effect:
  "addNewVideo e u details s = (r, s') \<Longrightarrow>
     videoOperations s' = videoOperations s \<and>
     (case r of
        Inl err \<Rightarrow> videos s' = videos s
      | Inr i \<Rightarrow> i = newDocId e \<and>
          videos s' = AList.update (newDocId e) (videoData e u details) (videos s))"
  by (auto simp: addNewVideo_def videoData_def Let_def split: option.splits)

lemma createAndProcessVideo_steps:
  "createAndProcessVideo e u len pl topic ttl insp scr =
     io_bind (\<lambda>s. (Inr (), s\<lparr>calls := calls s
        @ [E_createAndProcessVideo (jobOf u len pl topic ttl insp scr)]\<rparr>)) (\<lambda>_.
     io_bind (scriptStep e len topic ttl insp scr) (\<lambda>scriptResult.
     io_bind (io_call E_optimizeYoutubeUpload
                (optimizeYoutubeUpload e (optimizeInput scriptResult)))
       (\<lambda>optimizationResult.
     persistAndSubmit e u (newDetails len pl scriptResult optimizationResult)
        (sr_script scriptResult) (or_optimizedTitle optimizationResult))))"
  by (simp add: createAndProcessVideo_def scriptStep_def persistAndSubmit_def newDetails_def
       optimizeInput_def jobOf_def)

lemma scriptStep_effect:
  "scriptStep e len topic ttl insp scr s = (r, s') \<Longrightarrow>
     videos s' = videos s \<and> videoOperations s' = videoOperations s"
  by (auto simp: scriptStep_def Let_def io_defs split: option.splits if_splits)

lemma scriptStep_fst:
  "fst (scriptStep e len topic ttl insp scr s) = fst (scriptStep e len topic ttl insp scr s')"
  by (simp add: scriptStep_def Let_def io_defs split: option.splits)

lemma map_of_setDoc_merge:
  "map_of (setDoc_merge k m vs) k =
     Some (mergeMetadata (case map_of vs k of Some v \<Rightarrow> v | None \<Rightarrow> emptyDocument k) m)"
  by (simp add: setDoc_merge_def update_conv' split: option.splits)

section \<open>Properties of records that every write keeps\<close>

lemma set_update_cases:
  "(k', v') \<in> set (AList.update k v al) \<Longrightarrow> (k', v') \<in> set al \<or> (k' = k \<and> v' = v)"
  by (induction al) (auto split: if_splits)

lemma store_inv_update:
  "store_inv P al \<Longrightarrow> P v \<Longrightarrow> store_inv P (AList.update k v al)"
  unfolding store_inv_def by (auto dest: set_update_cases)

lemma store_inv_merge:
  assumes "closed_under P U" and "written U m" and "store_inv P al"
  shows "store_inv P (setDoc_merge k m al)"
proof (cases "map_of al k")
  case None
  then show ?thesis
    using assms by (simp add: setDoc_merge_def store_inv_update closed_under_def)
next
  case (Some v)
  then have "(k, v) \<in> set al" by (rule map_of_SomeD)
  then have "P v" using assms(3) by (auto simp: store_inv_def)
  then have "P (mergeMetadata v m)" using assms(1,2) by (simp add: closed_under_def)
  then show ?thesis
    using Some assms(3) by (simp add: setDoc_merge_def store_inv_update)
qed

lemma persistAndSubmit_store_inv:
  assumes closed: "closed_under P U"
    and details: "videoUrl details = None" "audioUrl details = None"
    and inv: "store_inv P (videos s)"
  shows "store_inv P (videos (snd (persistAndSubmit e u details sc t s)))"
proof (cases "addNewVideo e u details s")
  case (Pair r s1)
  note eff = addNewVideo_effect[OF Pair]
  show ?thesis
  proof (cases r)
    case (Inl err)
    then show ?thesis using Pair eff inv by (simp add: persistAndSubmit_def io_defs)
  next
    case (Inr i)
    have "P (videoData e u details)"
      using closed details by (simp add: closed_under_def videoData_def)
    then have s1: "store_inv P (videos s1)"
      using eff inv Inr by (simp add: store_inv_update)
    obtain r2 s2 where c: "createAIVideo e sc i s1 = (r2, s2)" by force
    have "written U (nameMetadata n)" for n by (auto simp: written_def)
    with createAIVideo_effect[OF c] s1 have "store_inv P (videos s2)"
      by (auto intro!: store_inv_merge[OF closed])
    then show ?thesis
      using Pair Inr c by (simp add: persistAndSubmit_def io_defs split: sum.splits)
  qed
qed

lemma createAndProcessVideo_store_inv:
  assumes closed: "closed_under P U" and inv: "store_inv P (videos s)"
  shows "store_inv P (videos (snd (createAndProcessVideo e u len pl topic ttl insp scr s)))"
proof -
  have tail: "store_inv P (videos (snd (persistAndSubmit e u (newDetails len pl sr opt) sc t s0)))"
    if "store_inv P (videos s0)" for sr opt sc t s0
    using closed _ _ that by (rule persistAndSubmit_store_inv) (simp_all add: newDetails_def)
  show ?thesis
    using inv
    by (auto simp: createAndProcessVideo_steps io_defs intro!: tail
          dest!: scriptStep_effect split: prod.splits sum.splits)
qed

lemma checkVideoStatus_store_inv:
  assumes closed: "closed_under P U"
    and urls: "\<forall>p u. getDownloadURL e p = Inr u \<longrightarrow> U u"
    and inv: "store_inv P (videos s)"
  shows "store_inv P (videos (snd (checkVideoStatus e videoId s)))"
proof -
  obtain r s' where c: "checkVideoStatus e videoId s = (r, s')" by force
  have failed: "written U statusFailed" by (simp add: written_def)
  have both: "written U (urlsMetadata u a (finalStatus v))"
    if "getDownloadURL e (videoPath videoId) = Inr u"
      and "getDownloadURL e (audioPath videoId) = Inr a" for u a v
    using that urls unfolding written_def by blast
  from checkVideoStatus_effect[OF c] have "store_inv P (videos s')"
    using inv failed both by (auto intro!: store_inv_merge[OF closed])
  then show ?thesis using c by simp
qed

lemma perform_store_inv:
  "closed_under P U \<Longrightarrow> env_urls U a \<Longrightarrow> store_inv P (videos s)
     \<Longrightarrow> store_inv P (videos (perform a s))"
  by (cases a) (auto intro: createAndProcessVideo_store_inv checkVideoStatus_store_inv)

lemma run_actions_store_inv:
  "closed_under P U \<Longrightarrow> \<forall>a \<in> set acts. env_urls U a \<Longrightarrow> store_inv P (videos s)
     \<Longrightarrow> store_inv P (videos (run_actions acts s))"
proof (induction acts arbitrary: s)
  case Nil
  then show ?case by (simp add: run_actions_def)
next
  case (Cons a acts)
  then have "store_inv P (videos (perform a s))"
    by (simp add: perform_store_inv)
  with Cons show ?case by (simp add: run_actions_def)
qed

lemma closed_record_ok: "closed_under record_ok (\<lambda>u. u \<noteq> [])"
  by (auto simp: closed_under_def written_def record_ok_def terminal_status_def
        assets_complete_def assets_absent_def mergeMetadata_def statusFailed_def
        nameMetadata_def urlsMetadata_def noMetadata_def emptyDocument_def)

lemma closed_processing: "closed_under processing_without_assets (\<lambda>u. True)"
  by (auto simp: closed_under_def written_def processing_without_assets_def
        assets_absent_def mergeMetadata_def statusFailed_def finalStatus_def
        nameMetadata_def urlsMetadata_def noMetadata_def emptyDocument_def)

lemma processing_reachable:
  assumes "map_of (videos (run_actions acts initial_state)) videoId = Some v"
    and "status v = ''Processing''"
  shows "videoUrl v = None \<and> audioUrl v = None"
proof -
  have "\<forall>a \<in> set acts. env_urls (\<lambda>u. True) a"
  proof
    fix a show "env_urls (\<lambda>u. True) a" by (cases a) simp_all
  qed
  then have "store_inv processing_without_assets (videos (run_actions acts initial_state))"
    by (intro run_actions_store_inv[OF closed_processing])
       (simp_all add: store_inv_def initial_state_def)
  moreover have "(videoId, v) \<in> set (videos (run_actions acts initial_state))"
    using assms(1) by (rule map_of_SomeD)
  ultimately show ?thesis
    using assms(2) by (auto simp: store_inv_def processing_without_assets_def assets_absent_def)
qed

section \<open>The jobs a run submits\<close>

text \<open>
  A call of \<open>createAndProcessVideo\<close> adds one job to the jobs submitted so far, whether
  it returns or throws; a loop adds one per iteration it enters; and in a world where
  every step of a submission succeeds, the call and the loops return.
\<close>

lemma submitted_append: "submitted (xs @ ys) = submitted xs @ submitted ys"
  by (induction xs rule: submitted.induct) simp_all

lemma scriptStep_submitted:
  "scriptStep e len topic ttl insp scr s = (r, s') \<Longrightarrow> submitted (calls s') = submitted (calls s)"
  by (auto simp: scriptStep_def Let_def io_defs submitted_append split: option.splits if_splits)

lemma persistAndSubmit_submitted:
  "persistAndSubmit e u details sc t s = (r, s') \<Longrightarrow>
     submitted (calls s') = submitted (calls s)"
  by (auto simp: persistAndSubmit_def addNewVideo_def createAIVideo_def storeOperation_def
        updateVideoMetadata_def io_defs Let_def submitted_append
      split: option.splits sum.splits prod.splits)

lemma createAndProcessVideo_submitted:
  "createAndProcessVideo e u len pl topic ttl insp scr s = (r, s') \<Longrightarrow>
     submitted (calls s') = submitted (calls s) @ [jobOf u len pl topic ttl insp scr]"
  by (auto simp: createAndProcessVideo_steps io_defs submitted_append
      split: sum.splits prod.splits
      dest!: scriptStep_submitted persistAndSubmit_submitted)

lemma shortJob_jobOf: "jobOf u Short None (Some ''a trending topic'') None None None = shortJob u"
  by (simp add: jobOf_def shortJob_def)

lemma longJob_jobOf:
  "jobOf u Long (Some pl) (Some topic) (Some (partTitle topic n)) None None
     = longJob u topic pl n"
  by (simp add: jobOf_def longJob_def partTitle_def)

lemma createShortsLoop_submitted:
  "createShortsLoop je u n i s = (r, s') \<Longrightarrow>
     \<exists>k. k \<le> n - i
       \<and> submitted (calls s') = submitted (calls s) @ replicate k (shortJob u)
       \<and> (r = Inr () \<longrightarrow> k = n - i)"
proof (induction je u n i arbitrary: s r s' rule: createShortsLoop.induct)
  case (1 je u n i)
  show ?case
  proof (cases "i < n")
    case False
    then have "r = Inr ()" "s' = s"
      using "1.prems" by (simp_all add: createShortsLoop.simps io_defs)
    with False show ?thesis by simp
  next
    case True
    obtain r1 s1 where c: "createAndProcessVideo (je i) u Short None (Some ''a trending topic'')
        None None None s = (r1, s1)" by force
    have sub1: "submitted (calls s1) = submitted (calls s) @ [shortJob u]"
      using createAndProcessVideo_submitted[OF c] by (simp add: shortJob_jobOf)
    show ?thesis
    proof (cases r1)
      case (Inl err)
      then have "r = Inl err" "s' = s1"
        using "1.prems" True c by (simp_all add: createShortsLoop.simps[of je u n i] io_defs)
      then show ?thesis
        using sub1 True by (intro exI[of _ 1]) simp
    next
      case (Inr x)
      then have rest: "createShortsLoop je u n (Suc i) s1 = (r, s')"
        using "1.prems" True c by (simp add: createShortsLoop.simps[of je u n i] io_defs)
      from "1.IH"[OF True rest] obtain k where k: "k \<le> n - Suc i"
        "submitted (calls s') = submitted (calls s1) @ replicate k (shortJob u)"
        "r = Inr () \<longrightarrow> k = n - Suc i" by blast
      show ?thesis
        using k sub1 True by (intro exI[of _ "Suc k"]) (auto simp: replicate_append_same)
    qed
  qed
qed

lemma createLongsLoop_submitted:
  "createLongsLoop je u topic pl start n i s = (r, s') \<Longrightarrow>
     \<exists>k. k \<le> n - i
       \<and> submitted (calls s')
           = submitted (calls s) @ map (\<lambda>j. longJob u topic pl (start + j)) [i..<i + k]
       \<and> (r = Inr () \<longrightarrow> k = n - i)"
proof (induction je u topic pl start n i arbitrary: s r s' rule: createLongsLoop.induct)
  case (1 je u topic pl start n i)
  show ?case
  proof (cases "i < n")
    case False
    then have "r = Inr ()" "s' = s"
      using "1.prems" by (simp_all add: createLongsLoop.simps io_defs)
    with False show ?thesis by simp
  next
    case True
    obtain r1 s1 where c: "createAndProcessVideo (je i) u Long (Some pl) (Some topic)
        (Some (partTitle topic (start + i))) None None s = (r1, s1)" by force
    have sub1: "submitted (calls s1) = submitted (calls s) @ [longJob u topic pl (start + i)]"
      using createAndProcessVideo_submitted[OF c] by (simp add: longJob_jobOf)
    show ?thesis
    proof (cases r1)
      case (Inl err)
      then have "r = Inl err" "s' = s1"
        using "1.prems" True c
        by (simp_all add: createLongsLoop.simps[of je u topic pl start n i] io_defs)
      then show ?thesis
        using sub1 True by (intro exI[of _ 1]) simp
    next
      case (Inr x)
      then have rest: "createLongsLoop je u topic pl start n (Suc i) s1 = (r, s')"
        using "1.prems" True c
        by (simp add: createLongsLoop.simps[of je u topic pl start n i] io_defs)
      from "1.IH"[OF True rest] obtain k where k: "k \<le> n - Suc i"
        "submitted (calls s') = submitted (calls s1)
           @ map (\<lambda>j. longJob u topic pl (start + j)) [Suc i..<Suc i + k]"
        "r = Inr () \<longrightarrow> k = n - Suc i" by blast
      have "[i..<i + Suc k] = i # [Suc i..<Suc i + k]"
        by (simp add: upt_conv_Cons)
      then show ?thesis
        using k sub1 True by (intro exI[of _ "Suc k"]) auto
    qed
  qed
qed

lemma scriptStep_returns:
  assumes "collaborators_ok e"
  shows "\<exists>sr. fst (scriptStep e len topic ttl insp scr s) = Inr sr"
proof -
  let ?inp = "\<lparr>si_length = len, si_topic = topic, si_videoTitle = ttl,
                si_inspirationVideoUrl = insp\<rparr>"
  obtain sr where "generateVideoScript e ?inp = Inr sr"
    using assms unfolding collaborators_ok_def by blast
  then show ?thesis
    by (cases scr) (simp_all add: scriptStep_def Let_def io_defs)
qed

lemma persistAndSubmit_returns:
  assumes "collaborators_ok e"
  shows "fst (persistAndSubmit e u details sc t s) = Inr (newDocId e, t)"
proof -
  obtain opn where "submitRender e sc (newDocId e) = Inr opn"
    using assms unfolding collaborators_ok_def by blast
  moreover have "setDoc_error e (newDocId e) = None"
    "\<And>m. setDoc_merge_error e (newDocId e) m = None"
    using assms unfolding collaborators_ok_def by blast+
  ultimately show ?thesis
    by (simp add: persistAndSubmit_def addNewVideo_def createAIVideo_def storeOperation_def
          updateVideoMetadata_def io_defs Let_def)
qed

lemma createAndProcessVideo_returns:
  assumes "collaborators_ok e"
  shows "\<exists>x. fst (createAndProcessVideo e u len pl topic ttl insp scr s) = Inr x"
proof -
  let ?s0 = "s\<lparr>calls := calls s @ [E_createAndProcessVideo (jobOf u len pl topic ttl insp scr)]\<rparr>"
  obtain sr where "fst (scriptStep e len topic ttl insp scr ?s0) = Inr sr"
    using scriptStep_returns[OF assms] by blast
  then obtain s1 where step: "scriptStep e len topic ttl insp scr ?s0 = (Inr sr, s1)"
    by (cases "scriptStep e len topic ttl insp scr ?s0") simp
  obtain opt where opt: "optimizeYoutubeUpload e (optimizeInput sr) = Inr opt"
    using assms unfolding collaborators_ok_def by blast
  show ?thesis
    using step opt persistAndSubmit_returns[OF assms]
    by (simp add: createAndProcessVideo_steps io_defs)
qed

lemma createShortsLoop_returns:
  "\<forall>i. collaborators_ok (je i) \<Longrightarrow> fst (createShortsLoop je u n i s) = Inr ()"
proof (induction je u n i arbitrary: s rule: createShortsLoop.induct)
  case (1 je u n i)
  show ?case
  proof (cases "i < n")
    case False
    then show ?thesis by (simp add: createShortsLoop.simps io_defs)
  next
    case True
    have "collaborators_ok (je i)" using "1.prems" by simp
    from createAndProcessVideo_returns[OF this]
    obtain x where "fst (createAndProcessVideo (je i) u Short None (Some ''a trending topic'')
        None None None s) = Inr x"
      by blast
    then obtain s1 where c: "createAndProcessVideo (je i) u Short None
        (Some ''a trending topic'') None None None s = (Inr x, s1)"
      by (cases "createAndProcessVideo (je i) u Short None (Some ''a trending topic'')
        None None None s") simp
    show ?thesis
      using True c "1.IH"[OF True "1.prems", of s1]
      by (simp add: createShortsLoop.simps[of je u n i] io_defs)
  qed
qed

lemma createLongsLoop_returns:
  "\<forall>i. collaborators_ok (je i) \<Longrightarrow>
     fst (createLongsLoop je u topic pl start n i s) = Inr ()"
proof (induction je u topic pl start n i arbitrary: s rule: createLongsLoop.induct)
  case (1 je u topic pl start n i)
  show ?case
  proof (cases "i < n")
    case False
    then show ?thesis by (simp add: createLongsLoop.simps io_defs)
  next
    case True
    have "collaborators_ok (je i)" using "1.prems" by simp
    from createAndProcessVideo_returns[OF this]
    obtain x where "fst (createAndProcessVideo (je i) u Long (Some pl) (Some topic)
        (Some (partTitle topic (start + i))) None None s) = Inr x"
      by blast
    then obtain s1 where c: "createAndProcessVideo (je i) u Long (Some pl) (Some topic)
        (Some (partTitle topic (start + i))) None None s = (Inr x, s1)"
      by (cases "createAndProcessVideo (je i) u Long (Some pl) (Some topic)
        (Some (partTitle topic (start + i))) None None s") simp
    show ?thesis
      using True c "1.IH"[OF True "1.prems", of s1]
      by (simp add: createLongsLoop.simps[of je u topic pl start n i] io_defs)
  qed
qed

section \<open>Queries, counts and calendar windows\<close>

text \<open>
  The window of \<open>getTodaysVideoCounts\<close> is the local calendar day of the clock
  reading: it starts at a local midnight, lasts a day less one millisecond and holds the
  reading. The window of \<open>getThisWeeksVideoCounts\<close> starts \<open>getDay\<close> days earlier
  and lasts seven days less one millisecond.
\<close>

lemma aligned:
  fixes m n t :: int
  shows "(n - (n + t) mod m + t) mod m = 0"
proof -
  have "n - (n + t) mod m + t = (n + t) - (n + t) mod m" by simp
  also have "\<dots> = (n + t) div m * m" by (simp add: minus_mod_eq_div_mult)
  finally show ?thesis by simp
qed

lemma today_window:
  "startOfDay e \<le> date_now e \<and> date_now e \<le> endOfDay e
   \<and> (startOfDay e + tzOffset e) mod ms_per_day = 0
   \<and> endOfDay e = startOfDay e + (ms_per_day - 1)"
proof -
  have m: "0 < ms_per_day" by (simp add: ms_per_day_def)
  have "0 \<le> (date_now e + tzOffset e) mod ms_per_day"
    "(date_now e + tzOffset e) mod ms_per_day < ms_per_day"
    using m by simp_all
  then show ?thesis
    by (simp add: startOfDay_def endOfDay_def aligned)
qed

lemma week_window:
  "startOfWeek e \<le> startOfDay e \<and> endOfDay e \<le> endOfWeek e
   \<and> endOfWeek e = startOfWeek e + (7 * ms_per_day - 1)
   \<and> startOfDay e - startOfWeek e = getDay e * ms_per_day"
proof -
  have m: "0 < ms_per_day" by (simp add: ms_per_day_def)
  have d: "0 \<le> getDay e" "getDay e \<le> 6"
    by (simp_all add: getDay_def)
  have "0 \<le> getDay e * ms_per_day" using d m by simp
  moreover have "getDay e * ms_per_day \<le> 6 * ms_per_day"
    using d m by (simp add: mult_right_mono)
  ultimately show ?thesis
    by (simp add: startOfWeek_def endOfWeek_def endOfDay_def)
qed

lemma fold_countStep:
  "shorts (fold countStep docs c)
      = shorts c + length (filter (\<lambda>v. videoLength v = Some Short) docs)
   \<and> longs (fold countStep docs c)
      = longs c + length (filter (\<lambda>v. videoLength v = Some Long) docs)"
  by (induction docs arbitrary: c) (auto simp: countStep_def Let_def)

lemma countLengths_eq:
  "countLengths docs = \<lparr>shorts = length (filter (\<lambda>v. videoLength v = Some Short) docs),
                        longs = length (filter (\<lambda>v. videoLength v = Some Long) docs)\<rparr>"
  using fold_countStep[of docs "\<lparr>shorts = 0, longs = 0\<rparr>"] by (simp add: countLengths_def)

lemma getTodaysVideoCounts_eq:
  "getTodaysVideoCounts e u s =
     (case getDocs_error e (ByOwnerCreatedBetween u (startOfDay e) (endOfDay e)) of
        Some err \<Rightarrow> (Inl err, s)
      | None \<Rightarrow> (Inr \<lparr>shorts = length (videosOf u Short (startOfDay e) (endOfDay e) s),
                       longs = length (videosOf u Long (startOfDay e) (endOfDay e) s)\<rparr>, s))"
  by (simp add: getTodaysVideoCounts_def getDocs_def io_defs countLengths_eq
        videosOf_def conj_commute conj_left_commute split: option.splits cong: conj_cong)

lemma getThisWeeksVideoCounts_eq:
  "getThisWeeksVideoCounts e u s =
     (case getDocs_error e (ByOwnerCreatedBetween u (startOfWeek e) (endOfWeek e)) of
        Some err \<Rightarrow> (Inl err, s)
      | None \<Rightarrow> (Inr \<lparr>shorts = length (videosOf u Short (startOfWeek e) (endOfWeek e) s),
                       longs = length (videosOf u Long (startOfWeek e) (endOfWeek e) s)\<rparr>, s))"
  by (simp add: getThisWeeksVideoCounts_def getDocs_def io_defs countLengths_eq
        videosOf_def conj_commute conj_left_commute split: option.splits cong: conj_cong)

lemma getPlaylists_state: "snd (getPlaylists e u s) = s"
  by (simp add: getPlaylists_def getAllVideos_def getDocs_def io_defs split: option.splits)

lemma countVideosInPlaylist_eq:
  "countVideosInPlaylist e u p s =
     (case getDocs_error e (ByOwnerPlaylist u p) of
        Some err \<Rightarrow> (Inl err, s)
      | None \<Rightarrow> (Inr (playlistSize u p s), s))"
  by (simp add: countVideosInPlaylist_def getDocs_def io_defs playlistSize_def comp_def
      split: option.splits)

lemma length_videosOf_restatus:
  "length (videosOf u len lo hi (restatus f s)) = length (videosOf u len lo hi s)"
proof -
  have "length (filter P (map snd (map (\<lambda>(i, v). (i, v\<lparr>status := f v\<rparr>)) vs)))
      = length (filter P (map snd vs))"
    if "\<And>v st. P (v\<lparr>status := st\<rparr>) = P v" for P and vs :: "(string \<times> VideoDetails) list"
    using that by (induction vs) auto
  then show ?thesis by (simp add: videosOf_def restatus_def)
qed

lemma filter_matches_ownedBy:
  "\<forall>v. matches q v \<longrightarrow> uid v = u \<Longrightarrow>
     filter (matches q) (map snd (filter (\<lambda>(i, v). uid v = u) vs))
       = filter (matches q) (map snd vs)"
  by (induction vs) auto

lemma getDocs_ownedBy:
  "\<forall>v. matches q v \<longrightarrow> uid v = u \<Longrightarrow>
     fst (getDocs e q (ownedBy u s)) = fst (getDocs e q s)"
  by (simp add: getDocs_def ownedBy_def filter_matches_ownedBy split: option.splits)

lemma fst_io_bind:
  "fst (m s) = fst (m s') \<Longrightarrow> (\<And>x s1 s2. fst (f x s1) = fst (f x s2))
     \<Longrightarrow> fst (io_bind m f s) = fst (io_bind m f s')"
  by (cases "m s"; cases "m s'") (auto simp: io_bind_def split: sum.splits)

section \<open>Evaluation of the examples\<close>

lemmas example_defs = ex_env_def ex_env_finished_def ex_env_late_def ex_pending_def ex_finished_def
  ex_create_def ex_record_def ex_record_generated_def ex_state_def ex_state_generated_def

lemmas model_defs = checkVideoStatus_def checkVideoStatusFlow_def getVideo_def getOperation_def
  markFailed_def updateVideoMetadata_def materializeAssets_def createAndProcessVideo_def
  addNewVideo_def createAIVideo_def storeOperation_def setDoc_merge_def mergeMetadata_def
  noMetadata_def statusFailed_def videoMediaPart_def mediaUrl_def finalStatus_def
  or_default_def run_actions_def initial_state_def emptyDocument_def ttl_ms_def
  videoPath_def audioPath_def

lemmas time_defs = startOfDay_def endOfDay_def startOfWeek_def endOfWeek_def getDay_def
  ms_per_day_def

lemma ex_run_create: "videos (run_actions [ex_create] initial_state) = [(''v1'', ex_record)]"
  by (simp add: example_defs model_defs io_defs Let_def)

lemma ex_run_generated:
  "videos (run_actions [ex_create, Check ex_env_finished ''v1''] initial_state)
     = [(''v1'', ex_record_generated)]"
  by (simp add: example_defs model_defs io_defs Let_def)

lemma ex_jobEnv_ok: "collaborators_ok (ex_jobEnv i)"
  by (simp add: collaborators_ok_def ex_jobEnv_def ex_env_def)

lemma ex_todaysShorts: "todaysShorts ex_env ''u1'' ex_state = 1"
  by (simp add: todaysShorts_def videosOf_def example_defs time_defs)

lemma ex_three_shorts: "todaysShorts ex_env ''u1'' ex_state_three_shorts = 3"
  by (simp add: todaysShorts_def videosOf_def ex_state_three_shorts_def example_defs time_defs)

lemma ex_thisWeeksLongs: "thisWeeksLongs ex_env ''u1'' ex_state = 0"
  by (simp add: thisWeeksLongs_def videosOf_def example_defs time_defs)

lemma ex_thisWeeksLongs_one:
  "thisWeeksLongs ex_env_continuing ''u1'' ex_state_one_long = 1"
  by (simp add: thisWeeksLongs_def videosOf_def ex_state_one_long_def ex_env_continuing_def
        example_defs time_defs)

lemma ex_playlists: "fst (getPlaylists ex_env ''u1'' ex_state) = Inr []"
  by (simp add: getPlaylists_def getAllVideos_def getDocs_def io_defs example_defs)

lemma ex_playlists_one:
  "fst (getPlaylists ex_env_continuing ''u1'' ex_state_one_long) = Inr [''Rust series'']"
  by (simp add: getPlaylists_def getAllVideos_def getDocs_def io_defs set_add_def
        ex_state_one_long_def ex_env_continuing_def example_defs)

lemma ex_playlistSize: "playlistSize ''u1'' ''Rust series'' ex_state_one_long = 1"
  by (simp add: playlistSize_def ex_state_one_long_def example_defs)

lemma ex_part_titles:
  "job_title (longJob u ''Rust'' pl 1) = Some ''Rust - Part 1''"
  "job_title (longJob u ''Rust'' pl 2) = Some ''Rust - Part 2''"
  by (simp_all add: longJob_def show_nat.simps digit_char_def)

section \<open>The claims\<close>

text \<open>
  Claim C1. Start from the empty store and run any history of \<open>createAndProcessVideo\<close>
  and \<open>checkVideoStatus\<close> calls, in a world whose asset store hands out non-empty
  download URLs. Then every record in the store that has status \<open>Generated\<close>,
  \<open>Scheduled\<close> or \<open>Published\<close> has a non-empty \<open>videoUrl\<close> and a non-empty
  \<open>audioUrl\<close>, and every record has either both URLs or none. Moreover a call of
  \<open>checkVideoStatus\<close> changes the store by at most one merge, which writes either the
  status \<open>Failed\<close> alone or both URLs together with the final status.
\<close>

theorem video_assets_invariant:
  assumes "\<forall>a \<in> set acts. asset_store_ok a"
    and "(i, v) \<in> set (videos (run_actions acts initial_state))"
  shows "(status v = ''Generated'' \<or> status v = ''Scheduled'' \<or> status v = ''Published''
          \<longrightarrow> truthy (videoUrl v) \<and> truthy (audioUrl v))
     \<and> (truthy (videoUrl v) \<and> truthy (audioUrl v)
          \<or> videoUrl v = None \<and> audioUrl v = None)
     \<and> (\<forall>e videoId s.
           videos (snd (checkVideoStatus e videoId s)) = videos s
           \<or> videos (snd (checkVideoStatus e videoId s))
                = setDoc_merge videoId statusFailed (videos s)
           \<or> (\<exists>u a st. (st = ''Generated'' \<or> st = ''Scheduled'')
                \<and> videos (snd (checkVideoStatus e videoId s))
                    = setDoc_merge videoId (urlsMetadata u a st) (videos s)))"
proof -
  have "\<forall>a \<in> set acts. env_urls (\<lambda>u. u \<noteq> []) a"
  proof
    fix a assume "a \<in> set acts"
    with assms(1) have "asset_store_ok a" by simp
    then show "env_urls (\<lambda>u. u \<noteq> []) a"
      by (cases a) (simp_all add: downloadURLs_nonempty_def)
  qed
  then have "store_inv record_ok (videos (run_actions acts initial_state))"
    by (intro run_actions_store_inv[OF closed_record_ok])
       (simp_all add: store_inv_def initial_state_def)
  then have "record_ok v" using assms(2) by (auto simp: store_inv_def)
  then have inv: "(status v = ''Generated'' \<or> status v = ''Scheduled''
          \<or> status v = ''Published'' \<longrightarrow> truthy (videoUrl v) \<and> truthy (audioUrl v))
     \<and> (truthy (videoUrl v) \<and> truthy (audioUrl v)
          \<or> videoUrl v = None \<and> audioUrl v = None)"
    by (simp add: record_ok_def terminal_status_def assets_complete_def assets_absent_def)
  have one: "videos (snd (checkVideoStatus e videoId s)) = videos s
           \<or> videos (snd (checkVideoStatus e videoId s))
                = setDoc_merge videoId statusFailed (videos s)
           \<or> (\<exists>u a st. (st = ''Generated'' \<or> st = ''Scheduled'')
                \<and> videos (snd (checkVideoStatus e videoId s))
                    = setDoc_merge videoId (urlsMetadata u a st) (videos s))"
    for e videoId s
  proof -
    obtain r s' where c: "checkVideoStatus e videoId s = (r, s')" by force
    have "finalStatus w = ''Generated'' \<or> finalStatus w = ''Scheduled''" for w
      by (simp add: finalStatus_def)
    with checkVideoStatus_effect[OF c] c show ?thesis
      by (elim disjE exE conjE) (simp, simp, metis snd_conv)
  qed
  show ?thesis using inv one by blast
qed

theorem video_assets_invariant_witness:
  "asset_store_ok ex_create \<and> asset_store_ok (Check ex_env_finished ''v1'')
   \<and> (''v1'', ex_record_generated)
        \<in> set (videos (run_actions [ex_create, Check ex_env_finished ''v1''] initial_state))
   \<and> status ex_record_generated = ''Generated''
   \<and> truthy (videoUrl ex_record_generated) \<and> truthy (audioUrl ex_record_generated)"
proof -
  have a: "\<forall>a \<in> set [ex_create, Check ex_env_finished ''v1'']. asset_store_ok a"
    by (simp add: ex_create_def downloadURLs_nonempty_def ex_env_finished_def ex_env_def)
  have b: "(''v1'', ex_record_generated)
        \<in> set (videos (run_actions [ex_create, Check ex_env_finished ''v1''] initial_state))"
    by (simp add: ex_run_generated)
  have c: "status ex_record_generated = ''Generated''"
    by (simp add: ex_record_generated_def)
  show ?thesis using a b c conjunct1[OF video_assets_invariant[OF a b]] by simp
qed

text \<open>
  Claim C2. When the stored record has a non-empty \<open>videoUrl\<close> and a non-empty
  \<open>audioUrl\<close> (and the store answers the read), \<open>checkVideoStatus\<close> returns
  \<open>completed\<close> with the stored \<open>videoUrl\<close> and leaves the whole state as it was, the
  list of calls included: no remote poll, no write. A second call right after the first
  returns the same output, again with no call made.
\<close>

theorem terminal_record_short_circuits:
  assumes "map_of (videos s) videoId = Some v"
    and "truthy (videoUrl v)" and "truthy (audioUrl v)"
    and "getDoc_error e1 videoId = None" and "getDoc_error e2 videoId = None"
  shows "checkVideoStatus e1 videoId s
           = (Inr \<lparr>status_out = completed, videoUrl_out = videoUrl v\<rparr>, s)
       \<and> checkVideoStatus e2 videoId (snd (checkVideoStatus e1 videoId s))
           = (Inr \<lparr>status_out = completed, videoUrl_out = videoUrl v\<rparr>, s)"
  using assms
  by (simp add: checkVideoStatus_def checkVideoStatusFlow_def getVideo_def io_defs)

theorem terminal_record_short_circuits_witness:
  "map_of (videos ex_state_generated) ''v1'' = Some ex_record_generated
   \<and> truthy (videoUrl ex_record_generated) \<and> truthy (audioUrl ex_record_generated)
   \<and> getDoc_error ex_env ''v1'' = None \<and> getDoc_error ex_env_finished ''v1'' = None
   \<and> checkVideoStatus ex_env ''v1'' ex_state_generated
       = (Inr \<lparr>status_out = completed,
               videoUrl_out = Some ''https://storage.example/videos/v1/generated_video.mp4''\<rparr>,
          ex_state_generated)
   \<and> checkVideoStatus ex_env_finished ''v1''
        (snd (checkVideoStatus ex_env ''v1'' ex_state_generated))
       = (Inr \<lparr>status_out = completed,
               videoUrl_out = Some ''https://storage.example/videos/v1/generated_video.mp4''\<rparr>,
          ex_state_generated)"
proof -
  have a: "map_of (videos ex_state_generated) ''v1'' = Some ex_record_generated"
    by (simp add: ex_state_generated_def ex_state_def)
  have b: "truthy (videoUrl ex_record_generated)" "truthy (audioUrl ex_record_generated)"
    by (simp_all add: ex_record_generated_def)
  have c: "getDoc_error ex_env ''v1'' = None" "getDoc_error ex_env_finished ''v1'' = None"
    by (simp_all add: ex_env_finished_def ex_env_def)
  have d: "videoUrl ex_record_generated
             = Some ''https://storage.example/videos/v1/generated_video.mp4''"
    by (simp add: ex_record_generated_def)
  note r = terminal_record_short_circuits[OF a b c, unfolded d]
  show ?thesis
    by (intro conjI a b c conjunct1[OF r] conjunct2[OF r])
qed

text \<open>
  Claim C3, as stated, fails: when the store rejects the metadata write of the
  materialization, the handler's own \<open>Failed\<close> write is rejected too, the error leaves
  \<open>checkVideoStatus\<close> as a thrown error, and the record still reports \<open>Processing\<close>.
\<close>

theorem materialization_failure_can_propagate:
  "fst (materializeAssets ex_env_store_down ''v1'' ex_record ex_dataUrl
          (ex_state\<lparr>calls := [E_checkOperation ''op1'']\<rparr>)) = Inl StoreError
   \<and> fst (checkVideoStatus ex_env_store_down ''v1'' ex_state) = Inl StoreError
   \<and> status_of (snd (checkVideoStatus ex_env_store_down ''v1'' ex_state)) ''v1''
       = Some ''Processing''"
  by (simp add: ex_env_store_down_def ex_dataUrl_def example_defs model_defs io_defs Let_def
        status_of_def)

text \<open>
  Claim C3, amended. Let the flow reach the materialization (record without both URLs,
  operation cached and not expired, done without error, with a media URL) and let a step
  of the materialization raise: the video upload, a URL derivation, the speech
  generation, the audio upload or the metadata write. The exception is caught and the
  handler attempts the \<open>Failed\<close> write on an unchanged store. When that write is
  accepted the call returns \<open>failed\<close> and the record's status is \<open>Failed\<close>. When
  that write is rejected, its error is thrown to the caller and the store is unchanged.
\<close>

theorem materialization_failure_is_caught:
  assumes stored: "getDoc_error e videoId = None" "map_of (videos s) videoId = Some v"
      "\<not> (truthy (videoUrl v) \<and> truthy (audioUrl v))"
    and cached: "operationName v = Some opName" "opName \<noteq> []"
      "videoOperations s opName = Some info" "date_now e - storedAt info \<le> ttl_ms"
    and polled: "(if done_op (operation info) then (Inr (operation info), s)
        else (checkOperation e (operation info),
              s\<lparr>calls := calls s @ [E_checkOperation opName]\<rparr>)) = (Inr opn, s0)"
    and finished: "done_op opn" "error_op opn = None" "videoMediaPart opn = Some part"
      "mediaUrl part = Some dataUrl" "dataUrl \<noteq> []"
    and raised: "materializeAssets e videoId v dataUrl s0 = (Inl err, s1)"
  shows "checkVideoStatus e videoId s = markFailed e videoId s1
     \<and> videos s1 = videos s
     \<and> (setDoc_merge_error e videoId statusFailed = None \<longrightarrow>
          fst (checkVideoStatus e videoId s) = Inr failed_out
          \<and> status_of (snd (checkVideoStatus e videoId s)) videoId = Some ''Failed'')
     \<and> (\<forall>err'. setDoc_merge_error e videoId statusFailed = Some err' \<longrightarrow>
          fst (checkVideoStatus e videoId s) = Inl err'
          \<and> videos (snd (checkVideoStatus e videoId s)) = videos s)
     \<and> (uploadString e (videoPath videoId) dataUrl = Some err
          \<or> getDownloadURL e (videoPath videoId) = Inl err
          \<or> generateSpeechAudio e (script v) = Inl err
          \<or> (\<exists>a. uploadString e (audioPath videoId) a = Some err)
          \<or> getDownloadURL e (audioPath videoId) = Inl err
          \<or> (\<exists>u a. setDoc_merge_error e videoId (urlsMetadata u a (finalStatus v))
                 = Some err))"
proof -
  have s0: "videos s0 = videos s"
    using polled by (auto split: if_splits)
  have s1: "videos s1 = videos s"
    using materializeAssets_effect[OF raised] s0 by simp
  have flow: "checkVideoStatus e videoId s = markFailed e videoId s1"
    using stored cached polled finished raised
    by (auto simp: checkVideoStatus_def checkVideoStatusFlow_def getVideo_def getOperation_def
          io_defs split: if_splits)
  have handled: "checkVideoStatus e videoId s = markFailed e videoId s1
     \<and> videos s1 = videos s
     \<and> (setDoc_merge_error e videoId statusFailed = None \<longrightarrow>
          fst (checkVideoStatus e videoId s) = Inr failed_out
          \<and> status_of (snd (checkVideoStatus e videoId s)) videoId = Some ''Failed'')
     \<and> (\<forall>err'. setDoc_merge_error e videoId statusFailed = Some err' \<longrightarrow>
          fst (checkVideoStatus e videoId s) = Inl err'
          \<and> videos (snd (checkVideoStatus e videoId s)) = videos s)"
    using stored(2) s1
    by (simp add: flow markFailed_eq status_of_def map_of_setDoc_merge mergeMetadata_def
          statusFailed_def noMetadata_def)
  show ?thesis
    using handled materializeAssets_raised[OF raised] by blast
qed

theorem materialization_failure_is_caught_witness:
  "fst (materializeAssets ex_env_speech_down ''v1'' ex_record ex_dataUrl
         (ex_state\<lparr>calls := [E_checkOperation ''op1'']\<rparr>)) = Inl SpeechError
   \<and> fst (checkVideoStatus ex_env_speech_down ''v1'' ex_state) = Inr failed_out
   \<and> status_of (snd (checkVideoStatus ex_env_speech_down ''v1'' ex_state)) ''v1''
       = Some ''Failed''"
proof -
  let ?e = ex_env_speech_down
  let ?s0 = "ex_state\<lparr>calls := [E_checkOperation ''op1'']\<rparr>"
  let ?info = "\<lparr>operation = ex_pending, storedAt = 1000\<rparr>"
  let ?part = "\<lparr>media = Some \<lparr>url = Some ex_dataUrl\<rparr>\<rparr>"
  obtain s1 where raised:
    "materializeAssets ?e ''v1'' ex_record ex_dataUrl ?s0 = (Inl SpeechError, s1)"
    by (simp add: ex_env_speech_down_def ex_dataUrl_def example_defs model_defs io_defs Let_def)
  have stored: "getDoc_error ?e ''v1'' = None" "map_of (videos ex_state) ''v1'' = Some ex_record"
    "\<not> (truthy (videoUrl ex_record) \<and> truthy (audioUrl ex_record))"
    by (simp_all add: ex_env_speech_down_def example_defs)
  have cached: "operationName ex_record = Some ''op1''" "''op1'' \<noteq> []"
    "videoOperations ex_state ''op1'' = Some ?info" "date_now ?e - storedAt ?info \<le> ttl_ms"
    by (simp_all add: ex_env_speech_down_def example_defs ttl_ms_def)
  have polled: "(if done_op (operation ?info) then (Inr (operation ?info), ex_state)
        else (checkOperation ?e (operation ?info),
              ex_state\<lparr>calls := calls ex_state @ [E_checkOperation ''op1'']\<rparr>))
      = (Inr ex_finished, ?s0)"
    by (simp add: ex_env_speech_down_def example_defs)
  have finished: "done_op ex_finished" "error_op ex_finished = None"
    "videoMediaPart ex_finished = Some ?part" "mediaUrl ?part = Some ex_dataUrl"
    "ex_dataUrl \<noteq> []"
    by (simp_all add: example_defs videoMediaPart_def mediaUrl_def ex_dataUrl_def)
  have ok: "setDoc_merge_error ?e ''v1'' statusFailed = None"
    by (simp add: ex_env_speech_down_def example_defs)
  note r = materialization_failure_is_caught[OF stored cached polled finished raised]
  have g1: "fst (materializeAssets ?e ''v1'' ex_record ex_dataUrl ?s0) = Inl SpeechError"
    using raised by simp
  have g2: "fst (checkVideoStatus ?e ''v1'' ex_state) = Inr failed_out
     \<and> status_of (snd (checkVideoStatus ?e ''v1'' ex_state)) ''v1'' = Some ''Failed''"
    using r ok by blast
  show ?thesis
    using g1 g2 by blast
qed

text \<open>
  Claim C4, as stated, fails for the render submission: it runs after \<open>addNewVideo\<close>,
  so when it fails the call throws and the new record is in the store.
\<close>

theorem render_failure_leaves_record:
  "fst (createAndProcessVideo ex_env_render_down ''u1'' Short None None (Some ''My Title'')
          None None initial_state) = Inl RenderError
   \<and> videos (snd (createAndProcessVideo ex_env_render_down ''u1'' Short None None
          (Some ''My Title'') None None initial_state))
       = [(''v1'', ex_record\<lparr>operationName := None\<rparr>)]
   \<and> videos initial_state = []"
  by (simp add: ex_env_render_down_def example_defs model_defs io_defs Let_def)

text \<open>
  Claim C4, amended. When script generation fails, or the metadata optimization fails,
  \<open>createAndProcessVideo\<close> throws that error and the store of videos and the table of
  operations are unchanged. When the render submission fails (script, optimization and
  the write of the new document having succeeded), the call throws that error too, and
  the store holds the new record, with status \<open>Processing\<close>.
\<close>

theorem creation_failure_effects:
  "(fst (scriptStep e len topic ttl insp scr s) = Inl err
      \<or> (\<exists>sr. fst (scriptStep e len topic ttl insp scr s) = Inr sr
            \<and> optimizeYoutubeUpload e (optimizeInput sr) = Inl err)
    \<longrightarrow> fst (createAndProcessVideo e u len pl topic ttl insp scr s) = Inl err
        \<and> videos (snd (createAndProcessVideo e u len pl topic ttl insp scr s)) = videos s
        \<and> videoOperations (snd (createAndProcessVideo e u len pl topic ttl insp scr s))
            = videoOperations s)
   \<and> (\<forall>sr opt. fst (scriptStep e len topic ttl insp scr s) = Inr sr
         \<and> optimizeYoutubeUpload e (optimizeInput sr) = Inr opt
         \<and> setDoc_error e (newDocId e) = None
         \<and> submitRender e (sr_script sr) (newDocId e) = Inl err
       \<longrightarrow> fst (createAndProcessVideo e u len pl topic ttl insp scr s) = Inl err
           \<and> videos (snd (createAndProcessVideo e u len pl topic ttl insp scr s))
               = AList.update (newDocId e) (videoData e u (newDetails len pl sr opt)) (videos s)
           \<and> status (videoData e u (newDetails len pl sr opt)) = ''Processing'')"
proof -
  let ?s0 = "s\<lparr>calls := calls s @ [E_createAndProcessVideo (jobOf u len pl topic ttl insp scr)]\<rparr>"
  obtain r1 s1 where step: "scriptStep e len topic ttl insp scr ?s0 = (r1, s1)" by force
  have r1: "r1 = fst (scriptStep e len topic ttl insp scr s)"
    using step scriptStep_fst[of e len topic ttl insp scr ?s0 s] by simp
  have s1: "videos s1 = videos s" "videoOperations s1 = videoOperations s"
    using scriptStep_effect[OF step] by simp_all
  show ?thesis
    using step r1 s1
    by (auto simp: createAndProcessVideo_steps io_defs persistAndSubmit_def addNewVideo_def
          createAIVideo_def videoData_def Let_def
        split: sum.splits option.splits)
qed

theorem creation_failure_effects_witness:
  "fst (scriptStep ex_env_script_down Short None (Some ''My Title'') None None initial_state)
      = Inl GenerationError
   \<and> fst (createAndProcessVideo ex_env_script_down ''u1'' Short None None (Some ''My Title'')
          None None initial_state) = Inl GenerationError
   \<and> videos (snd (createAndProcessVideo ex_env_script_down ''u1'' Short None None
          (Some ''My Title'') None None initial_state)) = []
   \<and> submitRender ex_env_render_down ''a script'' ''v1'' = Inl RenderError
   \<and> fst (createAndProcessVideo ex_env_render_down ''u1'' Short None None (Some ''My Title'')
          None None initial_state) = Inl RenderError
   \<and> map (status \<circ> snd) (videos (snd (createAndProcessVideo ex_env_render_down ''u1'' Short
          None None (Some ''My Title'') None None initial_state))) = [''Processing'']"
proof -
  let ?sr = "\<lparr>sr_title = ''My Title'', sr_script = ''a script'', sr_topic = ''a topic''\<rparr>"
  let ?opt = "\<lparr>or_optimizedTitle = ''My Title!'', or_optimizedDescription = None,
      or_optimizedTags = None, or_optimizedCategory = None, or_suggestedUploadTime = None\<rparr>"
  have h: "fst (scriptStep ex_env_script_down Short None (Some ''My Title'') None None
      initial_state) = Inl GenerationError"
    by (simp add: scriptStep_def ex_env_script_down_def ex_env_def io_defs Let_def)
  from conjunct1[OF creation_failure_effects[of ex_env_script_down Short None
      "Some ''My Title''" None None initial_state GenerationError "''u1''" None]] h
  have script: "fst (createAndProcessVideo ex_env_script_down ''u1'' Short None None
          (Some ''My Title'') None None initial_state) = Inl GenerationError
     \<and> videos (snd (createAndProcessVideo ex_env_script_down ''u1'' Short None None
          (Some ''My Title'') None None initial_state)) = videos initial_state"
    by blast
  have g: "fst (scriptStep ex_env_render_down Short None (Some ''My Title'') None None
      initial_state) = Inr ?sr"
    "optimizeYoutubeUpload ex_env_render_down (optimizeInput ?sr) = Inr ?opt"
    "setDoc_error ex_env_render_down (newDocId ex_env_render_down) = None"
    "submitRender ex_env_render_down (sr_script ?sr) (newDocId ex_env_render_down)
       = Inl RenderError"
    by (simp_all add: scriptStep_def optimizeInput_def ex_env_render_down_def ex_env_def
          or_default_def io_defs Let_def)
  from conjunct2[OF creation_failure_effects[of ex_env_render_down Short None
      "Some ''My Title''" None None initial_state RenderError "''u1''" None]] g
  have render: "fst (createAndProcessVideo ex_env_render_down ''u1'' Short None None
          (Some ''My Title'') None None initial_state) = Inl RenderError
     \<and> videos (snd (createAndProcessVideo ex_env_render_down ''u1'' Short None None
          (Some ''My Title'') None None initial_state))
        = AList.update (newDocId ex_env_render_down)
            (videoData ex_env_render_down ''u1'' (newDetails Short None ?sr ?opt))
            (videos initial_state)"
    by blast
  have r: "submitRender ex_env_render_down ''a script'' ''v1'' = Inl RenderError"
    by (simp add: ex_env_render_down_def)
  show ?thesis
    using h script render r by (simp add: initial_state_def videoData_def)
qed

text \<open>
  Claim C5. A descriptor stored at \<open>storedAt\<close> and looked up strictly more than 24 hours
  later is not returned and is removed from the table, whatever its \<open>done\<close> flag. A
  \<open>checkVideoStatus\<close> call at such a time, on a record with status \<open>Processing\<close> of a
  reachable store that refers to this operation, returns \<open>failed\<close> and leaves the
  record with status \<open>Failed\<close> (the store answering the read and accepting the write).
\<close>

theorem expired_operation_fails_video:
  assumes "videoOperations s opName = Some info"
    and "date_now e - storedAt info > 24 * 60 * 60 * 1000"
  shows "getOperation e opName s
           = (Inr None, s\<lparr>videoOperations := (videoOperations s)(opName := None)\<rparr>)
     \<and> (\<forall>acts videoId v.
           s = run_actions acts initial_state
           \<and> map_of (videos s) videoId = Some v
           \<and> status v = ''Processing'' \<and> operationName v = Some opName
           \<and> getDoc_error e videoId = None
           \<and> setDoc_merge_error e videoId statusFailed = None
           \<longrightarrow> fst (checkVideoStatus e videoId s) = Inr failed_out
             \<and> status_of (snd (checkVideoStatus e videoId s)) videoId = Some ''Failed'')"
proof (intro conjI allI impI)
  show g: "getOperation e opName s
           = (Inr None, s\<lparr>videoOperations := (videoOperations s)(opName := None)\<rparr>)"
    using assms by (simp add: getOperation_def ttl_ms_def)
  fix acts videoId v
  assume h: "s = run_actions acts initial_state
           \<and> map_of (videos s) videoId = Some v
           \<and> status v = ''Processing'' \<and> operationName v = Some opName
           \<and> getDoc_error e videoId = None
           \<and> setDoc_merge_error e videoId statusFailed = None"
  then have reach: "s = run_actions acts initial_state"
    and rec: "map_of (videos s) videoId = Some v" "status v = ''Processing''"
      "operationName v = Some opName"
    and ok: "getDoc_error e videoId = None" "setDoc_merge_error e videoId statusFailed = None"
    by blast+
  have urls: "videoUrl v = None \<and> audioUrl v = None"
    using processing_reachable[of acts videoId v] rec unfolding reach by blast
  have flow: "checkVideoStatus e videoId s
      = markFailed e videoId
          (if opName = [] then s
           else s\<lparr>videoOperations := (videoOperations s)(opName := None)\<rparr>)"
    using rec ok urls g
    by (simp add: checkVideoStatus_def checkVideoStatusFlow_def getVideo_def io_defs)
  show "fst (checkVideoStatus e videoId s) = Inr failed_out"
    using ok by (simp add: flow markFailed_eq)
  show "status_of (snd (checkVideoStatus e videoId s)) videoId = Some ''Failed''"
    using ok rec
    by (simp add: flow markFailed_eq status_of_def map_of_setDoc_merge mergeMetadata_def
          statusFailed_def noMetadata_def)
qed

theorem expired_operation_fails_video_witness:
  "videoOperations (run_actions [ex_create] initial_state) ''op1''
      = Some \<lparr>operation = ex_pending, storedAt = 1000\<rparr>
   \<and> date_now ex_env_late - storedAt \<lparr>operation = ex_pending, storedAt = 1000\<rparr>
        > 24 * 60 * 60 * 1000
   \<and> map_of (videos (run_actions [ex_create] initial_state)) ''v1'' = Some ex_record
   \<and> status ex_record = ''Processing'' \<and> operationName ex_record = Some ''op1''
   \<and> fst (getOperation ex_env_late ''op1'' (run_actions [ex_create] initial_state)) = Inr None
   \<and> videoOperations
        (snd (getOperation ex_env_late ''op1'' (run_actions [ex_create] initial_state))) ''op1''
       = None
   \<and> fst (checkVideoStatus ex_env_late ''v1'' (run_actions [ex_create] initial_state))
       = Inr failed_out
   \<and> status_of (snd (checkVideoStatus ex_env_late ''v1''
        (run_actions [ex_create] initial_state))) ''v1'' = Some ''Failed''"
proof -
  have a: "videoOperations (run_actions [ex_create] initial_state) ''op1''
      = Some \<lparr>operation = ex_pending, storedAt = 1000\<rparr>"
    by (simp add: example_defs model_defs io_defs Let_def)
  have b: "date_now ex_env_late - storedAt \<lparr>operation = ex_pending, storedAt = 1000\<rparr>
        > 24 * 60 * 60 * 1000"
    by (simp add: ex_env_late_def ex_env_def)
  have c: "map_of (videos (run_actions [ex_create] initial_state)) ''v1'' = Some ex_record"
    by (simp add: ex_run_create)
  have d: "status ex_record = ''Processing''" "operationName ex_record = Some ''op1''"
    by (simp_all add: ex_record_def)
  have e: "getDoc_error ex_env_late ''v1'' = None"
    "setDoc_merge_error ex_env_late ''v1'' statusFailed = None"
    by (simp_all add: ex_env_late_def ex_env_def)
  note r = expired_operation_fails_video[OF a b]
  have r1: "fst (getOperation ex_env_late ''op1'' (run_actions [ex_create] initial_state))
       = Inr None"
    and r2: "videoOperations
        (snd (getOperation ex_env_late ''op1'' (run_actions [ex_create] initial_state))) ''op1''
       = None"
    using conjunct1[OF r] by simp_all
  have r3: "fst (checkVideoStatus ex_env_late ''v1'' (run_actions [ex_create] initial_state))
       = Inr failed_out
     \<and> status_of (snd (checkVideoStatus ex_env_late ''v1''
        (run_actions [ex_create] initial_state))) ''v1'' = Some ''Failed''"
    using conjunct2[OF r] c d e by blast
  show ?thesis
    using a b c d r1 r2 r3 by blast
qed

text \<open>
  Claim C6. Let \<open>c\<close> be the number of the user's short videos created in today's local
  calendar day, both ends included. The jobs that \<open>runAutoPilot(uid, 'short')\<close> submits
  are copies of one job: short, no playlist, the topic \<open>a trending topic\<close>. There are
  \<open>max(0, 3 - c)\<close> of them when the run returns, and a run that throws has submitted
  fewer; none is submitted when \<open>c\<close> is at least 3. The run does return when the
  count query and every submission succeed.
\<close>

theorem autopilot_short_jobs:
  assumes "runAutoPilot e jobEnv u Short s = (r, s')"
  shows "\<exists>k. submitted (calls s') = submitted (calls s) @ replicate k (shortJob u)
     \<and> k \<le> nat (max 0 (3 - int (todaysShorts e u s)))
     \<and> (r = Inr () \<longrightarrow> k = nat (max 0 (3 - int (todaysShorts e u s))))
     \<and> (3 \<le> todaysShorts e u s \<longrightarrow> k = 0)
     \<and> (getDocs_error e (ByOwnerCreatedBetween u (startOfDay e) (endOfDay e)) = None
          \<and> (\<forall>i. collaborators_ok (jobEnv i)) \<longrightarrow> r = Inr ())"
proof (cases "getDocs_error e (ByOwnerCreatedBetween u (startOfDay e) (endOfDay e))")
  case (Some err)
  then have "s' = s" "r = Inl err"
    using assms
    by (simp_all add: runAutoPilot_def createShorts_def getTodaysVideoCounts_eq io_defs)
  then show ?thesis using Some by (intro exI[of _ 0]) simp
next
  case None
  let ?d = "nat (max 0 (3 - int (todaysShorts e u s)))"
  show ?thesis
  proof (cases "0 < ?d")
    case False
    then have "s' = s" "r = Inr ()"
      using assms None
      by (simp_all add: runAutoPilot_def createShorts_def getTodaysVideoCounts_eq io_defs
            dailyShortGoal_def todaysShorts_def Let_def split: if_splits)
    with False show ?thesis by (intro exI[of _ 0]) simp
  next
    case True
    then have loop: "createShortsLoop jobEnv u ?d 0 s = (r, s')"
      using assms None
      by (simp add: runAutoPilot_def createShorts_def getTodaysVideoCounts_eq io_defs
            dailyShortGoal_def todaysShorts_def Let_def split: if_splits)
    from createShortsLoop_submitted[OF this] obtain k where
      "k \<le> ?d" "submitted (calls s') = submitted (calls s) @ replicate k (shortJob u)"
      "r = Inr () \<longrightarrow> k = ?d" by auto
    moreover have "(\<forall>i. collaborators_ok (jobEnv i)) \<longrightarrow> r = Inr ()"
      using createShortsLoop_returns[of jobEnv u ?d 0 s] loop by auto
    ultimately show ?thesis by (intro exI[of _ k]) auto
  qed
qed

theorem autopilot_short_jobs_witness:
  "todaysShorts ex_env ''u1'' ex_state = 1
   \<and> fst (runAutoPilot ex_env ex_jobEnv ''u1'' Short ex_state) = Inr ()
   \<and> submitted (calls (snd (runAutoPilot ex_env ex_jobEnv ''u1'' Short ex_state)))
       = [shortJob ''u1'', shortJob ''u1'']"
proof -
  let ?R = "runAutoPilot ex_env ex_jobEnv ''u1'' Short ex_state"
  have run: "?R = (fst ?R, snd ?R)" by simp
  have q: "getDocs_error ex_env
      (ByOwnerCreatedBetween ''u1'' (startOfDay ex_env) (endOfDay ex_env)) = None"
    by (simp add: ex_env_def)
  from autopilot_short_jobs[OF run] obtain k where
    k: "submitted (calls (snd ?R)) = submitted (calls ex_state) @ replicate k (shortJob ''u1'')"
      "fst ?R = Inr () \<longrightarrow> k = nat (max 0 (3 - int (todaysShorts ex_env ''u1'' ex_state)))"
      "getDocs_error ex_env
         (ByOwnerCreatedBetween ''u1'' (startOfDay ex_env) (endOfDay ex_env)) = None
       \<and> (\<forall>i. collaborators_ok (ex_jobEnv i)) \<longrightarrow> fst ?R = Inr ()"
    by blast
  have ret: "fst ?R = Inr ()"
    using k(3) q ex_jobEnv_ok by blast
  then have "k = 2"
    using k(2) by (simp add: ex_todaysShorts)
  then have "submitted (calls (snd ?R)) = [shortJob ''u1'', shortJob ''u1'']"
    using k(1) by (simp add: ex_state_def numeral_2_eq_2)
  then show ?thesis
    using ex_todaysShorts ret by blast
qed

text \<open>
  Claim C7. Let the weekly deficit \<open>d = max(0, 2 - this week's long count)\<close> be positive
  and let the strategist suggest a topic, a playlist and whether the series is new. The
  jobs that \<open>runAutoPilot(uid, 'long')\<close> submits are long, all with the suggested
  playlist and topic, titled \<open>{topic} - Part {n}\<close> for \<open>n\<close> counting up by one from 1
  when the series is new and from the number of the user's videos in that playlist plus 1
  otherwise. There are \<open>d\<close> of them when the run returns (a run that throws has
  submitted fewer), and the run does return when the queries and every submission
  succeed.
\<close>

theorem autopilot_long_jobs:
  assumes run: "runAutoPilot e jobEnv u Long s = (r, s')"
    and deficit: "0 < nat (max 0 (2 - int (thisWeeksLongs e u s)))"
    and playlists: "fst (getPlaylists e u s) = Inr ps"
    and suggestion: "suggestSeriesStrategy e ps = Inr sug"
  shows "\<exists>k. submitted (calls s') = submitted (calls s)
         @ map (\<lambda>j. longJob u (ss_topic sug) (ss_playlist sug)
                  ((if ss_isNewSeries sug then 1
                    else playlistSize u (ss_playlist sug) s + 1) + j)) [0..<k]
     \<and> k \<le> nat (max 0 (2 - int (thisWeeksLongs e u s)))
     \<and> (r = Inr () \<longrightarrow> k = nat (max 0 (2 - int (thisWeeksLongs e u s))))
     \<and> (getDocs_error e (ByOwnerCreatedBetween u (startOfWeek e) (endOfWeek e)) = None
          \<and> (ss_isNewSeries sug
              \<or> getDocs_error e (ByOwnerPlaylist u (ss_playlist sug)) = None)
          \<and> (\<forall>i. collaborators_ok (jobEnv i)) \<longrightarrow> r = Inr ())"
proof (cases "getDocs_error e (ByOwnerCreatedBetween u (startOfWeek e) (endOfWeek e))")
  case (Some err)
  then have "s' = s" "r = Inl err"
    using run
    by (simp_all add: runAutoPilot_def createLongs_def getThisWeeksVideoCounts_eq io_defs)
  then show ?thesis using Some by (intro exI[of _ 0]) simp
next
  case None
  let ?d = "nat (max 0 (2 - int (thisWeeksLongs e u s)))"
  let ?s2 = "s\<lparr>calls := calls s @ [E_suggestSeriesStrategy ps]\<rparr>"
  let ?start = "if ss_isNewSeries sug then 1 else playlistSize u (ss_playlist sug) s + 1"
  have lt: "length (videosOf u Long (startOfWeek e) (endOfWeek e) s) < 2"
    using deficit by (simp add: thisWeeksLongs_def)
  have pl: "getPlaylists e u s = (Inr ps, s)"
    using playlists getPlaylists_state[of e u s] by (cases "getPlaylists e u s") simp
  have size: "playlistSize u p ?s2 = playlistSize u p s" for p
    by (simp add: playlistSize_def)
  have sub2: "submitted (calls ?s2) = submitted (calls s)"
    by (simp add: submitted_append)
  have body: "runAutoPilot e jobEnv u Long s =
      io_bind (if ss_isNewSeries sug then io_return 1
               else io_bind (countVideosInPlaylist e u (ss_playlist sug))
                      (\<lambda>n. io_return (n + 1)))
        (\<lambda>startPart. createLongsLoop jobEnv u (ss_topic sug) (ss_playlist sug) startPart ?d 0)
        ?s2"
    using None lt pl suggestion
    by (simp add: runAutoPilot_def createLongs_def getThisWeeksVideoCounts_eq io_defs
          weeklyLongGoal_def thisWeeksLongs_def Let_def)
  show ?thesis
  proof (cases "\<not> ss_isNewSeries sug
      \<and> getDocs_error e (ByOwnerPlaylist u (ss_playlist sug)) \<noteq> None")
    case True
    then obtain err where "getDocs_error e (ByOwnerPlaylist u (ss_playlist sug)) = Some err"
      by blast
    then have "s' = ?s2" "r = Inl err"
      using run True unfolding body by (simp_all add: countVideosInPlaylist_eq io_defs)
    then show ?thesis using sub2 True by (intro exI[of _ 0]) simp
  next
    case False
    then have loop: "createLongsLoop jobEnv u (ss_topic sug) (ss_playlist sug) ?start ?d 0 ?s2
        = (r, s')"
      using run unfolding body
      by (auto simp: countVideosInPlaylist_eq io_defs size split: option.splits)
    from createLongsLoop_submitted[OF loop] obtain k where
      k: "k \<le> ?d" "submitted (calls s') = submitted (calls ?s2)
            @ map (\<lambda>j. longJob u (ss_topic sug) (ss_playlist sug) (?start + j)) [0..<k]"
        "r = Inr () \<longrightarrow> k = ?d" by auto
    moreover have "(\<forall>i. collaborators_ok (jobEnv i)) \<longrightarrow> r = Inr ()"
      using createLongsLoop_returns[of jobEnv u "ss_topic sug" "ss_playlist sug" ?start ?d 0 ?s2]
        loop by auto
    ultimately show ?thesis
      unfolding sub2 by (intro exI[of _ k]) auto
  qed
qed

theorem autopilot_long_jobs_witness:
  "thisWeeksLongs ex_env ''u1'' ex_state = 0
   \<and> submitted (calls (snd (runAutoPilot ex_env ex_jobEnv ''u1'' Long ex_state)))
       = [longJob ''u1'' ''Rust'' ''Rust series'' 1, longJob ''u1'' ''Rust'' ''Rust series'' 2]
   \<and> job_title (longJob ''u1'' ''Rust'' ''Rust series'' 1) = Some ''Rust - Part 1''
   \<and> playlistSize ''u1'' ''Rust series'' ex_state_one_long = 1
   \<and> submitted (calls (snd (runAutoPilot ex_env_continuing ex_jobEnv ''u1'' Long
         ex_state_one_long)))
       = [longJob ''u1'' ''Rust'' ''Rust series'' 2]
   \<and> job_title (longJob ''u1'' ''Rust'' ''Rust series'' 2) = Some ''Rust - Part 2''"
proof -
  let ?R = "runAutoPilot ex_env ex_jobEnv ''u1'' Long ex_state"
  let ?Q = "runAutoPilot ex_env_continuing ex_jobEnv ''u1'' Long ex_state_one_long"
  have ok: "\<forall>i. collaborators_ok (ex_jobEnv i)" by (simp add: ex_jobEnv_ok)
  have runR: "?R = (fst ?R, snd ?R)" and runQ: "?Q = (fst ?Q, snd ?Q)" by simp_all
  have dR: "0 < nat (max 0 (2 - int (thisWeeksLongs ex_env ''u1'' ex_state)))"
    by (simp add: ex_thisWeeksLongs)
  have dQ: "0 < nat (max 0 (2 - int (thisWeeksLongs ex_env_continuing ''u1''
      ex_state_one_long)))"
    by (simp add: ex_thisWeeksLongs_one)
  have sugR: "suggestSeriesStrategy ex_env [] = Inr ex_new_series"
    by (simp add: ex_env_def ex_new_series_def)
  have sugQ: "suggestSeriesStrategy ex_env_continuing [''Rust series'']
      = Inr ex_continued_series"
    by (simp add: ex_env_continuing_def ex_continued_series_def)
  have qR: "getDocs_error ex_env
      (ByOwnerCreatedBetween ''u1'' (startOfWeek ex_env) (endOfWeek ex_env)) = None"
    by (simp add: ex_env_def)
  have qQ: "getDocs_error ex_env_continuing (ByOwnerCreatedBetween ''u1''
      (startOfWeek ex_env_continuing) (endOfWeek ex_env_continuing)) = None"
    "getDocs_error ex_env_continuing
       (ByOwnerPlaylist ''u1'' (ss_playlist ex_continued_series)) = None"
    by (simp_all add: ex_env_continuing_def ex_env_def)
  have none: "submitted (calls ex_state) = []" "submitted (calls ex_state_one_long) = []"
    by (simp_all add: ex_state_one_long_def ex_state_def)
  have jobsR: "submitted (calls (snd ?R))
      = [longJob ''u1'' ''Rust'' ''Rust series'' 1, longJob ''u1'' ''Rust'' ''Rust series'' 2]"
    using autopilot_long_jobs[OF runR dR ex_playlists sugR] qR ok
    by (auto simp: ex_new_series_def ex_thisWeeksLongs none upt_rec numeral_2_eq_2)
  have jobsQ: "submitted (calls (snd ?Q)) = [longJob ''u1'' ''Rust'' ''Rust series'' 2]"
    using autopilot_long_jobs[OF runQ dQ ex_playlists_one sugQ] qQ ok
    by (auto simp: ex_continued_series_def ex_thisWeeksLongs_one none ex_playlistSize numeral_2_eq_2)
  show ?thesis
    using ex_thisWeeksLongs jobsR jobsQ ex_playlistSize ex_part_titles by blast
qed

text \<open>
  Claim C8, as stated, fails for \<open>getVideo\<close> and \<open>checkVideoStatus\<close>: they take a
  document identifier and no user, so a request made for one user reads, and marks
  \<open>Failed\<close>, a record that another user owns.
\<close>

theorem getVideo_ignores_owner:
  "fst (getVideo ex_env ''v1'' ex_state) = Inr (Some ex_record)
   \<and> uid ex_record \<noteq> ex_requester
   \<and> fst (checkVideoStatus ex_env_late ''v1'' ex_state) = Inr failed_out
   \<and> status_of (snd (checkVideoStatus ex_env_late ''v1'' ex_state)) ''v1'' = Some ''Failed''"
  by (simp add: ex_requester_def example_defs model_defs io_defs Let_def status_of_def
        failed_out_def)

text \<open>
  Claim C8, amended. Every query over the collection is scoped by the owner:
  \<open>getAllVideos\<close> returns only records of the given user, and the daily and weekly
  counts, the playlists and the size of a playlist are what they would be in a store
  holding that user's records alone. \<open>getVideo\<close> is keyed by the document identifier
  alone: it returns whatever record the store holds under it.
\<close>

theorem queries_scoped_by_owner:
  "(\<forall>vs s'. getAllVideos e u s = (Inr vs, s') \<longrightarrow> (\<forall>v \<in> set vs. uid v = u))
   \<and> fst (getTodaysVideoCounts e u s) = fst (getTodaysVideoCounts e u (ownedBy u s))
   \<and> fst (getThisWeeksVideoCounts e u s) = fst (getThisWeeksVideoCounts e u (ownedBy u s))
   \<and> fst (getPlaylists e u s) = fst (getPlaylists e u (ownedBy u s))
   \<and> fst (countVideosInPlaylist e u p s) = fst (countVideosInPlaylist e u p (ownedBy u s))
   \<and> fst (getVideo e videoId s)
       = (case getDoc_error e videoId of
            Some err \<Rightarrow> Inl err
          | None \<Rightarrow> Inr (map_of (videos s) videoId))"
proof (intro conjI allI impI)
  show "\<forall>v \<in> set vs. uid v = u" if "getAllVideos e u s = (Inr vs, s')" for vs s'
    using that by (auto simp: getAllVideos_def getDocs_def split: option.splits)
  show "fst (getTodaysVideoCounts e u s) = fst (getTodaysVideoCounts e u (ownedBy u s))"
    unfolding getTodaysVideoCounts_def
    by (rule fst_io_bind) (simp_all add: getDocs_ownedBy io_defs)
  show "fst (getThisWeeksVideoCounts e u s) = fst (getThisWeeksVideoCounts e u (ownedBy u s))"
    unfolding getThisWeeksVideoCounts_def
    by (rule fst_io_bind) (simp_all add: getDocs_ownedBy io_defs)
  show "fst (getPlaylists e u s) = fst (getPlaylists e u (ownedBy u s))"
    unfolding getPlaylists_def getAllVideos_def
    by (rule fst_io_bind) (simp_all add: getDocs_ownedBy io_defs)
  show "fst (countVideosInPlaylist e u p s) = fst (countVideosInPlaylist e u p (ownedBy u s))"
    unfolding countVideosInPlaylist_def
    by (rule fst_io_bind) (simp_all add: getDocs_ownedBy io_defs)
  show "fst (getVideo e videoId s)
       = (case getDoc_error e videoId of
            Some err \<Rightarrow> Inl err
          | None \<Rightarrow> Inr (map_of (videos s) videoId))"
    by (simp add: getVideo_def split: option.splits)
qed

theorem queries_scoped_by_owner_witness:
  "getAllVideos ex_env ''u1'' ex_state_two_users = (Inr [ex_record], ex_state_two_users)
   \<and> uid ex_record = ''u1''
   \<and> map (uid \<circ> snd) (videos ex_state_two_users) = [''u1'', ''u2'']"
proof -
  have run: "getAllVideos ex_env ''u1'' ex_state_two_users
      = (Inr [ex_record], ex_state_two_users)"
    by (simp add: getAllVideos_def getDocs_def ex_state_two_users_def ex_env_def ex_record_def)
  from conjunct1[OF queries_scoped_by_owner[of ex_env "''u1''" ex_state_two_users]] run
  have "\<forall>v \<in> set [ex_record]. uid v = ''u1''" by blast
  then have "uid ex_record = ''u1''" by simp
  moreover have "map (uid \<circ> snd) (videos ex_state_two_users) = [''u1'', ''u2'']"
    by (simp add: ex_state_two_users_def ex_record_def)
  ultimately show ?thesis using run by blast
qed

text \<open>
  Claim C9. Whenever \<open>checkVideoStatus\<close> returns \<open>processing\<close>, the store of videos
  and the table of operations are unchanged: the only call made is the remote check of
  the cached descriptor, which was not done and whose refreshed copy is not done either,
  and the table still holds the descriptor it held, with its \<open>storedAt\<close>.
\<close>

theorem processing_poll_writes_nothing:
  assumes "checkVideoStatus e videoId s = (Inr out, s')" and "status_out out = processing"
  shows "videos s' = videos s \<and> videoOperations s' = videoOperations s
     \<and> (\<exists>opName info opn. s' = s\<lparr>calls := calls s @ [E_checkOperation opName]\<rparr>
           \<and> videoOperations s' opName = Some info
           \<and> \<not> done_op (operation info)
           \<and> checkOperation e (operation info) = Inr opn \<and> \<not> done_op opn)"
  using assms
  by (fastforce simp: checkVideoStatus_def checkVideoStatusFlow_def getVideo_def io_defs
        getOperation_def failed_out_def
      split: option.splits if_splits sum.splits prod.splits
      dest!: markFailed_effect materializeAssets_effect)


theorem processing_poll_writes_nothing_witness:
  "checkVideoStatus ex_env ''v1'' ex_state
     = (Inr \<lparr>status_out = processing, videoUrl_out = None\<rparr>,
        ex_state\<lparr>calls := [E_checkOperation ''op1'']\<rparr>)
   \<and> videos (ex_state\<lparr>calls := [E_checkOperation ''op1'']\<rparr>) = videos ex_state
   \<and> videoOperations (ex_state\<lparr>calls := [E_checkOperation ''op1'']\<rparr>) ''op1''
       = Some \<lparr>operation = ex_pending, storedAt = 1000\<rparr>"
proof -
  have a: "checkVideoStatus ex_env ''v1'' ex_state
     = (Inr \<lparr>status_out = processing, videoUrl_out = None\<rparr>,
        ex_state\<lparr>calls := [E_checkOperation ''op1'']\<rparr>)"
    by (simp add: example_defs model_defs io_defs)
  have b: "status_out \<lparr>status_out = processing, videoUrl_out = None\<rparr> = processing"
    by simp
  show ?thesis
    using a processing_poll_writes_nothing[OF a b] by (simp add: ex_state_def)
qed

text \<open>
  Claim C10. The daily and weekly counts do not look at the status: rewriting every
  status in the store leaves both counts as they are, the short count is the number of
  the user's short videos created today and the long count the number of the user's long
  videos created this week, \<open>Processing\<close> and \<open>Failed\<close> ones included. So when three
  such shorts exist today (two such longs this week) \<open>runAutoPilot\<close> submits nothing.
\<close>

theorem counts_ignore_status:
  "fst (getTodaysVideoCounts e u (restatus f s)) = fst (getTodaysVideoCounts e u s)
   \<and> fst (getThisWeeksVideoCounts e u (restatus f s)) = fst (getThisWeeksVideoCounts e u s)
   \<and> (\<forall>c. fst (getTodaysVideoCounts e u s) = Inr c \<longrightarrow> shorts c = todaysShorts e u s)
   \<and> (\<forall>c. fst (getThisWeeksVideoCounts e u s) = Inr c \<longrightarrow> longs c = thisWeeksLongs e u s)
   \<and> (\<forall>je r s'. runAutoPilot e je u Short s = (r, s') \<and> 3 \<le> todaysShorts e u s
         \<longrightarrow> submitted (calls s') = submitted (calls s))
   \<and> (\<forall>je r s'. runAutoPilot e je u Long s = (r, s') \<and> 2 \<le> thisWeeksLongs e u s
         \<longrightarrow> submitted (calls s') = submitted (calls s))"
proof (intro conjI allI impI)
  show "fst (getTodaysVideoCounts e u (restatus f s)) = fst (getTodaysVideoCounts e u s)"
    by (simp add: getTodaysVideoCounts_eq length_videosOf_restatus split: option.splits)
  show "fst (getThisWeeksVideoCounts e u (restatus f s)) = fst (getThisWeeksVideoCounts e u s)"
    by (simp add: getThisWeeksVideoCounts_eq length_videosOf_restatus split: option.splits)
  show "shorts c = todaysShorts e u s" if "fst (getTodaysVideoCounts e u s) = Inr c" for c
    using that by (auto simp: getTodaysVideoCounts_eq todaysShorts_def split: option.splits)
  show "longs c = thisWeeksLongs e u s" if "fst (getThisWeeksVideoCounts e u s) = Inr c" for c
    using that by (auto simp: getThisWeeksVideoCounts_eq thisWeeksLongs_def split: option.splits)
  show "submitted (calls s') = submitted (calls s)"
    if "runAutoPilot e je u Short s = (r, s') \<and> 3 \<le> todaysShorts e u s" for je r s'
    using that
    by (auto simp: runAutoPilot_def createShorts_def getTodaysVideoCounts_eq io_defs
          dailyShortGoal_def todaysShorts_def Let_def split: option.splits if_splits)
  show "submitted (calls s') = submitted (calls s)"
    if "runAutoPilot e je u Long s = (r, s') \<and> 2 \<le> thisWeeksLongs e u s" for je r s'
    using that
    by (auto simp: runAutoPilot_def createLongs_def getThisWeeksVideoCounts_eq io_defs
          weeklyLongGoal_def thisWeeksLongs_def Let_def split: option.splits if_splits)
qed

theorem counts_ignore_status_witness:
  "map (status \<circ> snd) (videos ex_state_three_shorts) = [''Failed'', ''Failed'', ''Processing'']
   \<and> todaysShorts ex_env ''u1'' ex_state_three_shorts = 3
   \<and> submitted (calls (snd (runAutoPilot ex_env ex_jobEnv ''u1'' Short ex_state_three_shorts)))
       = []"
proof -
  let ?R = "runAutoPilot ex_env ex_jobEnv ''u1'' Short ex_state_three_shorts"
  have run: "?R = (fst ?R, snd ?R)" by simp
  have "submitted (calls (snd ?R)) = submitted (calls ex_state_three_shorts)"
    using counts_ignore_status[of ex_env "''u1''" "\<lambda>v. ''Generated''" ex_state_three_shorts] run ex_three_shorts
    by (metis order_refl)
  moreover have "map (status \<circ> snd) (videos ex_state_three_shorts)
      = [''Failed'', ''Failed'', ''Processing'']"
    by (simp add: ex_state_three_shorts_def ex_record_def)
  ultimately show ?thesis
    using ex_three_shorts by (simp add: ex_state_three_shorts_def ex_state_def)
qed

end
